theory Spec2Isabelle
  imports Complex_Main "HOL-Library.Word" "HOL-Library.Signed_Division" "HOL-Library.Sublist"
    "HOL-Library.AList"
begin

section \<open>Machine integers, instants and identifiers\<close>

text \<open>
  Go's \<^verbatim>\<open>int64\<close> is a 64-bit word: addition, subtraction and multiplication wrap,
  comparisons read the word as two's complement, and \<^verbatim>\<open>/\<close> truncates towards zero.
\<close>

type_synonym int64 = "64 word"
type_synonym int32 = "32 word"

definition int64_div :: "int64 \<Rightarrow> int64 \<Rightarrow> int64" where
  "int64_div a b = word_of_int (sint a sdiv sint b)"

text \<open>
  A \<^verbatim>\<open>time.Time\<close> is modelled by the instant it denotes, as nanoseconds since the Unix
  epoch (unbounded); location and monotonic reading are left out. \<^verbatim>\<open>time.Time{}\<close> is
  January 1 of year 1, and \<^verbatim>\<open>UnixNano\<close> computes in \<^verbatim>\<open>int64\<close>, so it wraps.
\<close>

type_synonym time = int

definition time_zero :: time where
  "time_zero = - 62135596800 * 1000000000"

definition UnixNano :: "time \<Rightarrow> int64" where
  "UnixNano t = word_of_int t"

definition After :: "time \<Rightarrow> time \<Rightarrow> bool" where
  "After t u = (u < t)"

definition Second :: int64 where
  "Second = 1000000000"

definition Hour :: int where
  "Hour = 3600 * 1000000000"

type_synonym uuid = "128 word"

definition uuid_Nil :: uuid where
  "uuid_Nil = 0"

section \<open>Metric records and the scraper's state (metrics/kubelet.go)\<close>

text \<open>
  Modelled from the spec: the constants \<^verbatim>\<open>TypeCluster\<close>, \<^verbatim>\<open>TypeNode\<close>, \<^verbatim>\<open>TypePod\<close> and
  \<^verbatim>\<open>TypePodContainer\<close> of package metrics are declared outside the files at hand; the
  wire format names them cluster, node, pod and pod_container.
\<close>

definition TypeCluster :: string where "TypeCluster = ''cluster''"
definition TypeNode :: string where "TypeNode = ''node''"
definition TypePod :: string where "TypePod = ''pod''"
definition TypePodContainer :: string where "TypePodContainer = ''pod_container''"

record Metrics =
  Name :: string
  Type :: string
  Node :: uuid
  Application :: uuid
  Service :: uuid
  Container :: uuid
  Timestamp :: time
  Value :: int64
  PodName :: string
  AdditionalTags :: "(string \<times> string) list option"

record KubeletValue =
  kv_Timestamp :: time
  kv_Value :: int64

text \<open>
  Every \<^verbatim>\<open>karma.Format\<close> and \<^verbatim>\<open>fmt.Errorf\<close> site is one constructor; an error coming
  from the kubelet client or from a decoder carries its message.
\<close>

datatype error =
    NoPreviousValue
  | TimestampNotNewer
  | ClientError string
  | UnableToGetSummary error
  | UnableToGetCadvisor error
  | MaxRetriesExceeded error
  | UnableToUnmarshalSummary string
  | UnableToReadCadvisor string

text \<open>
  The generic JSON value \<^verbatim>\<open>json.Unmarshal\<close> stores into an \<^verbatim>\<open>interface{}\<close>; \<^verbatim>\<open>JNull\<close>
  is Go's nil interface.
\<close>

datatype json =
    JNull
  | JBool bool
  | JNumber real
  | JString string
  | JArray "json list"
  | JObject "(string \<times> json) list"

text \<open>
  The state one scrape cycle works on: the batch under construction, the raw responses,
  the rate table \<^verbatim>\<open>kubelet.previous\<close>, the variables \<^verbatim>\<open>summaryBytes\<close> and
  \<^verbatim>\<open>cadvisorResponse\<close> that the fetch closures assign to, and two traces of the outside
  effects: how many requests the kubelet client has served and which durations
  \<^verbatim>\<open>time.Sleep\<close> was called with. Log output is not modelled.
\<close>

record kubelet_state =
  metrics :: "Metrics list"
  rawResponses :: "(string \<times> json) list"
  previous :: "string \<rightharpoonup> KubeletValue"
  summaryBytes :: string
  cadvisorResponse :: string
  requests :: nat
  slept :: "int64 list"

subsection \<open>Rate table\<close>

definition getKey :: "string \<Rightarrow> string \<Rightarrow> string \<Rightarrow> string \<Rightarrow> string" where
  "getKey entity parentKey entityKey measurement =
     (let parentKey' = (if parentKey \<noteq> '''' then parentKey @ '':'' else parentKey)
      in entity @ ''-'' @ measurement @ '':'' @ parentKey' @ entityKey)"

definition getPreviousValue :: "(string \<rightharpoonup> KubeletValue) \<Rightarrow> string \<Rightarrow> error + KubeletValue" where
  "getPreviousValue prev key =
     (case prev key of
        None \<Rightarrow> Inl NoPreviousValue
      | Some p \<Rightarrow> Inr \<lparr>kv_Timestamp = kv_Timestamp p, kv_Value = kv_Value p\<rparr>)"

definition updatePreviousValue ::
  "string \<Rightarrow> KubeletValue \<Rightarrow> kubelet_state \<Rightarrow> kubelet_state" where
  "updatePreviousValue key v st = st\<lparr>previous := (previous st)(key \<mapsto> v)\<rparr>"

definition calcRate ::
  "(string \<rightharpoonup> KubeletValue) \<Rightarrow> string \<Rightarrow> time \<Rightarrow> int64 \<Rightarrow> int64 \<Rightarrow> error + int64" where
  "calcRate prev key timestamp val multiplier =
     (case getPreviousValue prev key of
        Inl e \<Rightarrow> Inl e
      | Inr p \<Rightarrow>
          (let duration = UnixNano timestamp - UnixNano (kv_Timestamp p)
           in if duration \<le>s Second then Inl TimestampNotNewer
              else
                (let previousValue = (if val <s kv_Value p then 0 else kv_Value p)
                 in Inr (int64_div (multiplier * (val - previousValue)) duration))))"

definition addMetricValue ::
  "time \<Rightarrow> string \<Rightarrow> string \<Rightarrow> uuid \<Rightarrow> uuid \<Rightarrow> uuid \<Rightarrow> uuid \<Rightarrow> string \<Rightarrow> time \<Rightarrow> int64
     \<Rightarrow> kubelet_state \<Rightarrow> kubelet_state" where
  "addMetricValue tickTime measurementType measurement nodeID applicationID serviceID
       containerID podName timestamp val st =
     (let timestamp' = (if timestamp = time_zero then tickTime else timestamp)
      in st\<lparr>metrics := metrics st @
            [\<lparr>Name = measurement, Type = measurementType, Node = nodeID,
              Application = applicationID, Service = serviceID, Container = containerID,
              Timestamp = timestamp', Value = val, PodName = podName,
              AdditionalTags = None\<rparr>]\<rparr>)"

definition addMetricValueWithTags ::
  "string \<Rightarrow> string \<Rightarrow> uuid \<Rightarrow> uuid \<Rightarrow> uuid \<Rightarrow> uuid \<Rightarrow> string \<Rightarrow> time \<Rightarrow> int64
     \<Rightarrow> (string \<times> string) list \<Rightarrow> kubelet_state \<Rightarrow> kubelet_state" where
  "addMetricValueWithTags measurementType measurement nodeID applicationID serviceID
       containerID podName timestamp val additionalTags st =
     st\<lparr>metrics := metrics st @
          [\<lparr>Name = measurement, Type = measurementType, Node = nodeID,
            Application = applicationID, Service = serviceID, Container = containerID,
            Timestamp = timestamp, Value = val, PodName = podName,
            AdditionalTags = Some additionalTags\<rparr>]\<rparr>"

definition addMetricValueRate ::
  "time \<Rightarrow> string \<Rightarrow> string \<Rightarrow> string \<Rightarrow> string \<Rightarrow> uuid \<Rightarrow> uuid \<Rightarrow> uuid \<Rightarrow> uuid \<Rightarrow> string
     \<Rightarrow> time \<Rightarrow> int64 \<Rightarrow> int64 \<Rightarrow> kubelet_state \<Rightarrow> kubelet_state" where
  "addMetricValueRate tickTime measurementType parentKey entityKey measurement nodeID
       applicationID serviceID containerID pod timestamp val multiplier st =
     (let timestamp' = (if timestamp = time_zero then tickTime else timestamp);
          key = getKey measurementType parentKey entityKey measurement;
          rate = calcRate (previous st) key timestamp' val multiplier;
          st' = updatePreviousValue key \<lparr>kv_Timestamp = timestamp', kv_Value = val\<rparr> st
      in case rate of
           Inl e \<Rightarrow> st'
         | Inr r \<Rightarrow>
             addMetricValue tickTime measurementType measurement nodeID applicationID
               serviceID containerID pod timestamp' r st')"

subsection \<open>Strings\<close>

fun strings_Contains :: "string \<Rightarrow> string \<Rightarrow> bool" where
  "strings_Contains [] substr = (substr = [])"
| "strings_Contains (c # cs) substr = (prefix substr (c # cs) \<or> strings_Contains cs substr)"

definition resource_not_found :: string where
  "resource_not_found = ''the server could not find the requested resource''"

subsection \<open>The summary document\<close>

record KubeletSummaryContainer =
  ksc_Name :: string
  StartTime :: time
  CPU_Time :: time
  CPU_UsageCoreNanoSeconds :: int64
  Memory_Time :: time
  Memory_RSSBytes :: int64
  RootFS_Time :: time
  RootFS_UsedBytes :: int64

record SummaryNetwork =
  net_Time :: time
  RxBytes :: int64
  RxErrors :: int64
  TxBytes :: int64
  TxErrors :: int64

record SummaryNode =
  node_CPU_Time :: time
  node_CPU_UsageCoreNanoSeconds :: int64
  node_Memory_Time :: time
  node_Memory_RSSBytes :: int64
  FS_Time :: time
  FS_UsedBytes :: int64
  FS_CapacityBytes :: int64
  node_Network :: SummaryNetwork

record SummaryPod =
  PodRef_Name :: string
  PodRef_Namespace :: string
  Containers :: "KubeletSummaryContainer list"
  pod_Network :: SummaryNetwork

record KubeletSummary =
  summary_Node :: SummaryNode
  Pods :: "SummaryPod list"

record containerMetricStore =
  cms_ApplicationID :: uuid
  cms_ServiceID :: uuid
  cms_ContainerID :: uuid
  cms_Namespace :: string
  cms_PodName :: string
  cms_ContainerName :: string
  cms_Timestamp :: time
  cms_Value :: real

subsection \<open>Collaborators\<close>

text \<open>
  Package scanner and the type \<^verbatim>\<open>kuber.Node\<close> are outside the files at hand; the scraper
  sees them through the queries below, which are taken as given and as fixed for the
  duration of one cycle. Resource quantities appear as the \<^verbatim>\<open>int64\<close> the scraper reads
  off them (\<^verbatim>\<open>Cpu().MilliValue()\<close>, \<^verbatim>\<open>Memory().Value()\<close>, \<^verbatim>\<open>int64(node.Capacity.CPU)\<close>).
  A container carries two sets of them: a node task reads
  \<^verbatim>\<open>Resources.SpecResourceRequirements.Requests\<close> and \<^verbatim>\<open>.Limits\<close>, the loop after the
  fan-out reads \<^verbatim>\<open>Resources.Requests\<close> and \<^verbatim>\<open>Resources.Limits\<close>.
\<close>

record kuber_Node =
  node_ID :: uuid
  node_Name :: string
  InstanceType :: string
  InstanceSize :: string
  Capacity_CPU :: int64
  Capacity_Memory :: int64
  Allocatable_CPU :: int64
  Allocatable_Memory :: int64

record scanner_Container =
  container_ID :: uuid
  Spec_Requests_Cpu_MilliValue :: int64
  Spec_Limits_Cpu_MilliValue :: int64
  Spec_Requests_Memory_Value :: int64
  Spec_Limits_Memory_Value :: int64
  Requests_Cpu_MilliValue :: int64
  Limits_Cpu_MilliValue :: int64
  Requests_Memory_Value :: int64
  Limits_Memory_Value :: int64

record scanner_Service =
  service_ID :: uuid
  service_Containers :: "scanner_Container list"

record scanner_Application =
  application_ID :: uuid
  Services :: "scanner_Service list"

record Scanner =
  GetNodes :: "kuber_Node list"
  NodesLastScanTime :: time
  GetApplications :: "scanner_Application list"
  AppsLastScanTime :: time
  FindService :: "string \<Rightarrow> string \<Rightarrow> (uuid \<times> uuid) option"
  FindContainer :: "string \<Rightarrow> string \<Rightarrow> string \<Rightarrow> (uuid \<times> uuid \<times> scanner_Container) option"
  FindContainerByPodUIDContainerName :: "string \<Rightarrow> string \<Rightarrow> uuid option"

text \<open>
  What the scraper calls and does not define: the kubelet client (its answer may depend
  on how many requests came before; it returns bytes and an optional error message),
  the JSON and exposition decoders, \<^verbatim>\<open>uuid.String\<close>, the clock readings, and the
  constructor of the concurrent processor, whose error makes \<^verbatim>\<open>GetMetrics\<close> panic.
  A sample of the exposition document is its labels and its value.
\<close>

type_synonym cadvisor_sample = "(string \<times> string) list \<times> real"

record Collaborators =
  GetBytes :: "kuber_Node \<Rightarrow> string \<Rightarrow> nat \<Rightarrow> string \<times> string option"
  Unmarshal_interface :: "string \<Rightarrow> string + json"
  Unmarshal_summary :: "string \<Rightarrow> string + KubeletSummary"
  decodeCAdvisorResponse :: "string \<Rightarrow> string + (string \<Rightarrow> cadvisor_sample list)"
  getCAdvisorContainerValue :: "cadvisor_sample \<Rightarrow> string \<times> string \<times> real \<times> bool"
  uuid_String :: "uuid \<Rightarrow> string"
  Now_collectGarbage :: time
  Now_task :: "kuber_Node \<Rightarrow> time"
  NewConcurrentProcessor_err :: "string option"

record Kubelet =
  backoff_sleep :: int64
  backoff_maxRetries :: int
  optInAnalysisData :: bool

subsection \<open>Retry with backoff\<close>

text \<open>
  \<^verbatim>\<open>withBackoff\<close>: the loop carries \<^verbatim>\<open>try\<close> (a Go \<^verbatim>\<open>int\<close>, here unbounded) and returns
  it with the error, so that the number of calls of \<^verbatim>\<open>fn\<close> can be read off: \<^verbatim>\<open>try\<close>
  is incremented exactly once before each call.
\<close>

function withBackoff_loop ::
  "Kubelet \<Rightarrow> (kubelet_state \<Rightarrow> error option \<times> kubelet_state) \<Rightarrow> int \<Rightarrow> kubelet_state
     \<Rightarrow> (error option \<times> int) \<times> kubelet_state" where
  "withBackoff_loop kubelet fn try st =
     (let try' = try + 1
      in case fn st of
           (None, st') \<Rightarrow> ((None, try'), st')
         | (Some err, st') \<Rightarrow>
             if try' > backoff_maxRetries kubelet
             then ((Some (MaxRetriesExceeded err), try'), st')
             else
               (let timeout = backoff_sleep kubelet * word_of_int ((try' - 1) smod 10 + 1)
                in withBackoff_loop kubelet fn try' (st'\<lparr>slept := slept st' @ [timeout]\<rparr>)))"
  by pat_completeness auto
termination
  by (relation "measure (\<lambda>(kubelet, fn, try, st). nat (backoff_maxRetries kubelet - try))") auto

definition withBackoff ::
  "Kubelet \<Rightarrow> (kubelet_state \<Rightarrow> error option \<times> kubelet_state) \<Rightarrow> kubelet_state
     \<Rightarrow> error option \<times> kubelet_state" where
  "withBackoff kubelet fn st =
     (case withBackoff_loop kubelet fn 0 st of ((err, try), st') \<Rightarrow> (err, st'))"

text \<open>The two closures handed to \<^verbatim>\<open>withBackoff\<close> by a node task.\<close>

definition getSummary :: "Collaborators \<Rightarrow> kuber_Node \<Rightarrow> kubelet_state \<Rightarrow> error option \<times> kubelet_state" where
  "getSummary env node st =
     (case GetBytes env node ''stats/summary'' (requests st) of
        (bytes, err) \<Rightarrow>
          (let st' = st\<lparr>summaryBytes := bytes, requests := Suc (requests st)\<rparr>
           in case err of
                Some msg \<Rightarrow>
                  if strings_Contains msg resource_not_found
                  then (None, st'\<lparr>summaryBytes := ''{}''\<rparr>)
                  else (Some (UnableToGetSummary (ClientError msg)), st')
              | None \<Rightarrow> (None, st')))"

definition getCadvisor :: "Collaborators \<Rightarrow> kuber_Node \<Rightarrow> kubelet_state \<Rightarrow> error option \<times> kubelet_state" where
  "getCadvisor env node st =
     (case GetBytes env node ''metrics/cadvisor'' (requests st) of
        (bytes, err) \<Rightarrow>
          (let st' = st\<lparr>cadvisorResponse := bytes, requests := Suc (requests st)\<rparr>
           in case err of
                Some msg \<Rightarrow>
                  if strings_Contains msg resource_not_found
                  then (None, st'\<lparr>cadvisorResponse := []\<rparr>)
                  else (Some (UnableToGetCadvisor (ClientError msg)), st')
              | None \<Rightarrow> (None, st')))"

declare withBackoff_loop.simps [simp del]

subsection \<open>A node task\<close>

definition addRawResponse :: "Collaborators \<Rightarrow> uuid \<Rightarrow> json \<Rightarrow> kubelet_state \<Rightarrow> kubelet_state" where
  "addRawResponse env nodeID data st =
     st\<lparr>rawResponses := AList.update (uuid_String env nodeID) data (rawResponses st)\<rparr>"

text \<open>
  Each \<^verbatim>\<open>for _, measurement := range []struct{...}{...}\<close> is the table of its rows and a
  fold of the call in its body.
\<close>

definition node_absolutes :: "KubeletSummary \<Rightarrow> (string \<times> time \<times> int64) list" where
  "node_absolutes summary =
     (let n = summary_Node summary
      in [(''cpu/usage'', node_CPU_Time n, node_CPU_UsageCoreNanoSeconds n),
          (''memory/rss'', node_Memory_Time n, node_Memory_RSSBytes n),
          (''filesystem/usage'', FS_Time n, FS_UsedBytes n),
          (''filesystem/node_capacity'', FS_Time n, FS_CapacityBytes n),
          (''filesystem/node_allocatable'', FS_Time n, FS_CapacityBytes n),
          (''network/tx'', net_Time (node_Network n), TxBytes (node_Network n)),
          (''network/rx'', net_Time (node_Network n), RxBytes (node_Network n)),
          (''network/tx_errors'', net_Time (node_Network n), TxErrors (node_Network n)),
          (''network/rx_errors'', net_Time (node_Network n), RxErrors (node_Network n))])"

definition node_rates :: "KubeletSummary \<Rightarrow> (string \<times> time \<times> int64 \<times> int64) list" where
  "node_rates summary =
     (let n = summary_Node summary
      in [(''cpu/usage_rate'', node_CPU_Time n, node_CPU_UsageCoreNanoSeconds n, 1000),
          (''network/tx_rate'', net_Time (node_Network n), TxBytes (node_Network n), 1000000000),
          (''network/rx_rate'', net_Time (node_Network n), RxBytes (node_Network n), 1000000000),
          (''network/tx_errors_rate'', net_Time (node_Network n), TxErrors (node_Network n),
             1000000000),
          (''network/rx_errors_rate'', net_Time (node_Network n), RxErrors (node_Network n),
             1000000000)])"

definition emit_node_summary ::
  "Collaborators \<Rightarrow> time \<Rightarrow> kuber_Node \<Rightarrow> KubeletSummary \<Rightarrow> kubelet_state \<Rightarrow> kubelet_state" where
  "emit_node_summary env tickTime node summary st =
     (let st1 = fold (\<lambda>(name, t, v).
                   addMetricValue tickTime TypeNode name (node_ID node) uuid_Nil uuid_Nil
                     uuid_Nil [] t v) (node_absolutes summary) st
      in fold (\<lambda>(name, t, v, multiplier).
                 addMetricValueRate tickTime TypeNode [] (uuid_String env (node_ID node)) name
                   (node_ID node) uuid_Nil uuid_Nil uuid_Nil [] t v multiplier)
           (node_rates summary) st1)"

definition pod_absolutes :: "SummaryPod \<Rightarrow> (string \<times> time \<times> int64) list" where
  "pod_absolutes pod =
     [(''network/tx'', net_Time (pod_Network pod), TxBytes (pod_Network pod)),
      (''network/rx'', net_Time (pod_Network pod), TxBytes (pod_Network pod)),
      (''network/tx_errors'', net_Time (pod_Network pod), TxErrors (pod_Network pod)),
      (''network/rx_errors'', net_Time (pod_Network pod), RxErrors (pod_Network pod))]"

definition pod_rates :: "SummaryPod \<Rightarrow> (string \<times> time \<times> int64) list" where
  "pod_rates pod =
     [(''network/tx_rate'', net_Time (pod_Network pod), TxBytes (pod_Network pod)),
      (''network/rx_rate'', net_Time (pod_Network pod), TxBytes (pod_Network pod)),
      (''network/tx_errors_rate'', net_Time (pod_Network pod), TxErrors (pod_Network pod)),
      (''network/rx_errors_rate'', net_Time (pod_Network pod), RxErrors (pod_Network pod))]"

definition emit_pod_network ::
  "time \<Rightarrow> kuber_Node \<Rightarrow> uuid \<Rightarrow> uuid \<Rightarrow> SummaryPod \<Rightarrow> kubelet_state \<Rightarrow> kubelet_state" where
  "emit_pod_network tickTime node applicationID serviceID pod st =
     (let st1 = fold (\<lambda>(name, t, v).
                   addMetricValue tickTime TypePod name (node_ID node) applicationID serviceID
                     uuid_Nil (PodRef_Name pod) t v) (pod_absolutes pod) st
      in fold (\<lambda>(name, t, v).
                 addMetricValueRate tickTime TypePod (PodRef_Namespace pod) (PodRef_Name pod) name
                   (node_ID node) applicationID serviceID uuid_Nil (PodRef_Name pod) t v
                   1000000000)
           (pod_rates pod) st1)"

text \<open>
  The map \<^verbatim>\<open>podContainers\<close>, as an association list with one entry for each key; Go
  ranges over a map in an order of its own, the model in the order of first insertion.
\<close>

definition podContainers_step ::
  "KubeletSummaryContainer \<Rightarrow> (string \<times> KubeletSummaryContainer) list
     \<Rightarrow> (string \<times> KubeletSummaryContainer) list" where
  "podContainers_step container podContainers =
     (case map_of podContainers (ksc_Name container) of
        None \<Rightarrow> AList.update (ksc_Name container) container podContainers
      | Some foundContainer \<Rightarrow>
          if After (StartTime container) (StartTime foundContainer)
          then AList.update (ksc_Name container) container podContainers
          else podContainers)"

definition podContainers_of :: "SummaryPod \<Rightarrow> (string \<times> KubeletSummaryContainer) list" where
  "podContainers_of pod = fold podContainers_step (Containers pod) []"

definition container_absolutes ::
  "KubeletSummaryContainer \<Rightarrow> scanner_Container \<Rightarrow> (string \<times> time \<times> int64) list" where
  "container_absolutes container identifiedContainer =
     [(''cpu/usage'', CPU_Time container, CPU_UsageCoreNanoSeconds container),
      (''memory/rss'', Memory_Time container, Memory_RSSBytes container),
      (''filesystem/usage'', RootFS_Time container, RootFS_UsedBytes container),
      (''cpu/request'', CPU_Time container, Spec_Requests_Cpu_MilliValue identifiedContainer),
      (''cpu/limit'', CPU_Time container, Spec_Limits_Cpu_MilliValue identifiedContainer),
      (''memory/request'', Memory_Time container, Spec_Requests_Memory_Value identifiedContainer),
      (''memory/limit'', Memory_Time container, Spec_Limits_Memory_Value identifiedContainer)]"

definition defaultMetricStore ::
  "uuid \<Rightarrow> uuid \<Rightarrow> scanner_Container \<Rightarrow> string \<Rightarrow> string \<Rightarrow> KubeletSummaryContainer
     \<Rightarrow> containerMetricStore" where
  "defaultMetricStore applicationID serviceID identifiedContainer namespace podName container =
     \<lparr>cms_ApplicationID = applicationID, cms_ServiceID = serviceID,
      cms_ContainerID = container_ID identifiedContainer, cms_Namespace = namespace,
      cms_PodName = podName, cms_ContainerName = ksc_Name container,
      cms_Timestamp = CPU_Time container, cms_Value = 0\<rparr>"

type_synonym throttle_map = "(uuid \<times> (string \<times> containerMetricStore) list) list"

definition emit_container ::
  "Scanner \<Rightarrow> time \<Rightarrow> kuber_Node \<Rightarrow> SummaryPod \<Rightarrow> KubeletSummaryContainer
     \<Rightarrow> throttle_map \<times> kubelet_state \<Rightarrow> throttle_map \<times> kubelet_state" where
  "emit_container scanner tickTime node pod container acc =
     (case acc of (throttleMetrics, st) \<Rightarrow>
        (case FindContainer scanner (PodRef_Namespace pod) (PodRef_Name pod) (ksc_Name container) of
           None \<Rightarrow> (throttleMetrics, st)
         | Some (applicationID, serviceID, identifiedContainer) \<Rightarrow>
             (let st1 = fold (\<lambda>(name, t, v).
                           addMetricValue tickTime TypePodContainer name (node_ID node)
                             applicationID serviceID (container_ID identifiedContainer)
                             (PodRef_Name pod) t v)
                          (container_absolutes container identifiedContainer) st;
                  st2 = addMetricValueRate tickTime TypePodContainer
                          (PodRef_Namespace pod @ '':'' @ PodRef_Name pod) (ksc_Name container)
                          ''cpu/usage_rate'' (node_ID node) applicationID serviceID
                          (container_ID identifiedContainer) (PodRef_Name pod)
                          (CPU_Time container) (CPU_UsageCoreNanoSeconds container) 1000 st1;
                  d = defaultMetricStore applicationID serviceID identifiedContainer
                        (PodRef_Namespace pod) (PodRef_Name pod) container;
                  stored = AList.update ''container_cpu_cfs_throttled/periods_total'' d
                            (AList.update ''container_cpu_cfs_throttled/seconds_total'' d
                              (AList.update ''container_cpu_cfs/periods_total'' d []))
              in (AList.update (container_ID identifiedContainer) stored throttleMetrics, st2))))"

definition emit_pod ::
  "Scanner \<Rightarrow> time \<Rightarrow> kuber_Node \<Rightarrow> SummaryPod \<Rightarrow> throttle_map \<times> kubelet_state
     \<Rightarrow> throttle_map \<times> kubelet_state" where
  "emit_pod scanner tickTime node pod acc =
     (case acc of (throttleMetrics, st) \<Rightarrow>
        (case FindService scanner (PodRef_Namespace pod) (PodRef_Name pod) of
           None \<Rightarrow> (throttleMetrics, st)
         | Some (applicationID, serviceID) \<Rightarrow>
             (let st1 = emit_pod_network tickTime node applicationID serviceID pod st
              in fold (\<lambda>(name, container). emit_container scanner tickTime node pod container)
                   (podContainers_of pod) (throttleMetrics, st1))))"

text \<open>
  \<^verbatim>\<open>int64(x)\<close> of a \<^verbatim>\<open>float64\<close>: the fraction is dropped, and a value outside the
  \<^verbatim>\<open>int64\<close> range gives the smallest \<^verbatim>\<open>int64\<close>, as the conversion does on amd64. The
  model takes the value as a real number; the rounding of \<^verbatim>\<open>float64\<close> arithmetic is not
  modelled.
\<close>

definition int64_of_float64 :: "real \<Rightarrow> int64" where
  "int64_of_float64 x =
     (let t = (if 0 \<le> x then \<lfloor>x\<rfloor> else \<lceil>x\<rceil>)
      in if - (2 ^ 63) \<le> t \<and> t < 2 ^ 63 then word_of_int t else - (2 ^ 63))"

definition throttle_refs :: "(string \<times> string) list" where
  "throttle_refs =
     [(''container_cpu_cfs/periods_total'', ''container_cpu_cfs_periods_total''),
      (''container_cpu_cfs_throttled/periods_total'', ''container_cpu_cfs_throttled_periods_total''),
      (''container_cpu_cfs_throttled/seconds_total'', ''container_cpu_cfs_throttled_seconds_total'')]"

definition store_sample ::
  "Collaborators \<Rightarrow> Scanner \<Rightarrow> string \<Rightarrow> cadvisor_sample \<Rightarrow> throttle_map \<Rightarrow> throttle_map" where
  "store_sample env scanner metricName val throttleMetrics =
     (case getCAdvisorContainerValue env val of
        (podUID, containerName, v, ok) \<Rightarrow>
          if ok then
            (case FindContainerByPodUIDContainerName scanner podUID containerName of
               None \<Rightarrow> throttleMetrics
             | Some containerID \<Rightarrow>
                 AList.map_entry containerID
                   (AList.map_entry metricName (\<lambda>storedMetric. storedMetric\<lparr>cms_Value := v\<rparr>))
                   throttleMetrics)
          else throttleMetrics)"

definition store_cadvisor ::
  "Collaborators \<Rightarrow> Scanner \<Rightarrow> (string \<Rightarrow> cadvisor_sample list) \<Rightarrow> throttle_map \<Rightarrow> throttle_map" where
  "store_cadvisor env scanner cadvisor throttleMetrics =
     fold (\<lambda>(metricName, ref). fold (store_sample env scanner metricName) (cadvisor ref))
       throttle_refs throttleMetrics"

definition emit_stored ::
  "time \<Rightarrow> kuber_Node \<Rightarrow> KubeletSummary \<Rightarrow> time \<Rightarrow> string \<times> containerMetricStore
     \<Rightarrow> kubelet_state \<Rightarrow> kubelet_state" where
  "emit_stored tickTime node summary now entry st =
     (case entry of (metricName, storedMetric) \<Rightarrow>
        (let st1 = addMetricValue tickTime TypePodContainer metricName (node_ID node)
                     (cms_ApplicationID storedMetric) (cms_ServiceID storedMetric)
                     (cms_ContainerID storedMetric) (cms_PodName storedMetric)
                     (node_CPU_Time (summary_Node summary))
                     (int64_of_float64 (cms_Value storedMetric)) st;
             rateValue = (if strings_Contains metricName ''seconds''
                          then cms_Value storedMetric * 1000 else cms_Value storedMetric)
         in addMetricValueRate tickTime TypePodContainer
              (cms_Namespace storedMetric @ '':'' @ cms_PodName storedMetric)
              (cms_ContainerName storedMetric) (metricName @ ''_rate'') (node_ID node)
              (cms_ApplicationID storedMetric) (cms_ServiceID storedMetric)
              (cms_ContainerID storedMetric) (cms_PodName storedMetric) now
              (int64_of_float64 rateValue) 1000000000 st1))"

definition emit_throttle ::
  "time \<Rightarrow> kuber_Node \<Rightarrow> KubeletSummary \<Rightarrow> time \<Rightarrow> throttle_map \<Rightarrow> kubelet_state
     \<Rightarrow> kubelet_state" where
  "emit_throttle tickTime node summary now throttleMetrics st =
     fold (\<lambda>(containerID, storedMetrics). fold (emit_stored tickTime node summary now) storedMetrics)
       throttleMetrics st"

text \<open>The task from the second fetch on.\<close>

definition scrape_cadvisor ::
  "Collaborators \<Rightarrow> Kubelet \<Rightarrow> Scanner \<Rightarrow> time \<Rightarrow> kuber_Node \<Rightarrow> KubeletSummary \<Rightarrow> throttle_map
     \<Rightarrow> kubelet_state \<Rightarrow> error option \<times> kubelet_state" where
  "scrape_cadvisor env kubelet scanner tickTime node summary throttleMetrics st =
     (case withBackoff kubelet (getCadvisor env node) st of
        (Some err, st1) \<Rightarrow> (Some err, st1)
      | (None, st1) \<Rightarrow>
          (case decodeCAdvisorResponse env (cadvisorResponse st1) of
             Inl msg \<Rightarrow> (Some (UnableToReadCadvisor msg), st1)
           | Inr cadvisor \<Rightarrow>
               (let now = Now_task env node;
                    throttleMetrics' = store_cadvisor env scanner cadvisor throttleMetrics
                in (None, emit_throttle tickTime node summary now throttleMetrics' st1))))"

text \<open>The task from the summary bytes on.\<close>

definition process_summary ::
  "Collaborators \<Rightarrow> Kubelet \<Rightarrow> Scanner \<Rightarrow> time \<Rightarrow> kuber_Node \<Rightarrow> kubelet_state
     \<Rightarrow> error option \<times> kubelet_state" where
  "process_summary env kubelet scanner tickTime node st =
     (let st1 = (if optInAnalysisData kubelet
                 then (case Unmarshal_interface env (summaryBytes st) of
                         Inl msg \<Rightarrow> st
                       | Inr summaryInterface \<Rightarrow>
                           if summaryInterface \<noteq> JNull
                           then addRawResponse env (node_ID node) summaryInterface st
                           else st)
                 else st)
      in case Unmarshal_summary env (summaryBytes st1) of
           Inl msg \<Rightarrow> (Some (UnableToUnmarshalSummary msg), st1)
         | Inr summary \<Rightarrow>
             (let st2 = emit_node_summary env tickTime node summary st1
              in case fold (emit_pod scanner tickTime node) (Pods summary) ([], st2) of
                   (throttleMetrics, st3) \<Rightarrow>
                     scrape_cadvisor env kubelet scanner tickTime node summary throttleMetrics st3))"

definition node_task ::
  "Collaborators \<Rightarrow> Kubelet \<Rightarrow> Scanner \<Rightarrow> time \<Rightarrow> kuber_Node \<Rightarrow> kubelet_state
     \<Rightarrow> error option \<times> kubelet_state" where
  "node_task env kubelet scanner tickTime node st =
     (case withBackoff kubelet (getSummary env node) st of
        (Some err, st1) \<Rightarrow> (Some err, st1)
      | (None, st1) \<Rightarrow> process_summary env kubelet scanner tickTime node st1)"

subsection \<open>The scrape cycle\<close>

text \<open>
  \<^verbatim>\<open>time.Now().Sub(previous.Timestamp) > time.Hour\<close>; the cycle's clock is read once.
\<close>

definition collectGarbage :: "Collaborators \<Rightarrow> kubelet_state \<Rightarrow> kubelet_state" where
  "collectGarbage env st =
     st\<lparr>previous := (\<lambda>key. case previous st key of
                             None \<Rightarrow> None
                           | Some p \<Rightarrow>
                               if Now_collectGarbage env - kv_Timestamp p > Hour then None
                               else Some p)\<rparr>"

definition instanceGroup_of :: "kuber_Node \<Rightarrow> string" where
  "instanceGroup_of node =
     (let instanceGroup = (if InstanceType node \<noteq> [] then InstanceType node else []);
          instanceGroup' = (if InstanceSize node \<noteq> []
                            then instanceGroup @ ''.'' @ InstanceSize node else instanceGroup)
      in instanceGroup')"

definition count_instanceGroup :: "kuber_Node \<Rightarrow> (string \<times> int64) list \<Rightarrow> (string \<times> int64) list" where
  "count_instanceGroup node instanceGroups =
     (let instanceGroup = instanceGroup_of node;
          groups = (case map_of instanceGroups instanceGroup of
                      None \<Rightarrow> AList.update instanceGroup 0 instanceGroups
                    | Some c \<Rightarrow> instanceGroups)
      in AList.update instanceGroup
           ((case map_of groups instanceGroup of None \<Rightarrow> 0 | Some c \<Rightarrow> c) + 1) groups)"

definition emit_cluster :: "Scanner \<Rightarrow> time \<Rightarrow> kubelet_state \<Rightarrow> kubelet_state" where
  "emit_cluster scanner tickTime st =
     (let nodes = GetNodes scanner;
          nodesScanTime = NodesLastScanTime scanner;
          st1 = addMetricValue tickTime TypeCluster ''nodes/count'' uuid_Nil uuid_Nil uuid_Nil
                  uuid_Nil [] nodesScanTime (of_nat (length nodes)) st;
          instanceGroups = fold count_instanceGroup nodes []
      in fold (\<lambda>(instanceGroup, nodesCount).
                 addMetricValueWithTags TypeCluster ''nodes/count'' uuid_Nil uuid_Nil uuid_Nil
                   uuid_Nil [] nodesScanTime nodesCount [(''instance_group'', instanceGroup)])
           instanceGroups st1)"

definition node_capacities :: "Scanner \<Rightarrow> kuber_Node \<Rightarrow> (string \<times> time \<times> int64) list" where
  "node_capacities scanner node =
     [(''cpu/node_capacity'', NodesLastScanTime scanner, Capacity_CPU node),
      (''cpu/node_allocatable'', NodesLastScanTime scanner, Allocatable_CPU node),
      (''memory/node_capacity'', NodesLastScanTime scanner, Capacity_Memory node),
      (''memory/node_allocatable'', NodesLastScanTime scanner, Allocatable_Memory node)]"

definition emit_capacities :: "Scanner \<Rightarrow> time \<Rightarrow> kubelet_state \<Rightarrow> kubelet_state" where
  "emit_capacities scanner tickTime st =
     fold (\<lambda>node.
             fold (\<lambda>(name, t, v).
                     addMetricValue tickTime TypeNode name (node_ID node) uuid_Nil uuid_Nil
                       uuid_Nil [] t v)
               (node_capacities scanner node))
       (GetNodes scanner) st"

definition container_spec :: "scanner_Container \<Rightarrow> (string \<times> int64) list" where
  "container_spec container =
     [(''cpu/request'', Requests_Cpu_MilliValue container),
      (''cpu/limit'', Limits_Cpu_MilliValue container),
      (''memory/request'', Requests_Memory_Value container),
      (''memory/limit'', Limits_Memory_Value container)]"

definition emit_spec :: "Scanner \<Rightarrow> time \<Rightarrow> kubelet_state \<Rightarrow> kubelet_state" where
  "emit_spec scanner tickTime st =
     fold (\<lambda>app.
             fold (\<lambda>service.
                     fold (\<lambda>container.
                             fold (\<lambda>(name, v).
                                     addMetricValue tickTime TypePodContainer name uuid_Nil
                                       (application_ID app) (service_ID service)
                                       (container_ID container) []
                                       (AppsLastScanTime scanner) v)
                               (container_spec container))
                       (service_Containers service))
               (Services app))
       (GetApplications scanner) st"

text \<open>
  \<^verbatim>\<open>pr.Do()\<close> runs one task for each node concurrently and collects their errors. The
  tasks append to the shared batch under a mutex, and the order of the batch is not
  significant; the model runs the tasks one after the other in the order of the node
  list, which is one of the schedules.
\<close>

fun Do ::
  "(kuber_Node \<Rightarrow> kubelet_state \<Rightarrow> error option \<times> kubelet_state) \<Rightarrow> kuber_Node list
     \<Rightarrow> kubelet_state \<Rightarrow> error option list \<times> kubelet_state" where
  "Do task [] st = ([], st)"
| "Do task (node # nodes) st =
     (case task node st of
        (err, st1) \<Rightarrow> (case Do task nodes st1 of (errs, st2) \<Rightarrow> (err # errs, st2)))"

datatype 'a outcome = Panic string | Return 'a

text \<open>
  \<^verbatim>\<open>GetMetrics\<close> returns the batch, the raw responses (nil unless analysis data is opted
  in) and its error; the state it leaves behind is the fourth component.
\<close>

definition GetMetrics ::
  "Collaborators \<Rightarrow> Kubelet \<Rightarrow> Scanner \<Rightarrow> time \<Rightarrow> kubelet_state
     \<Rightarrow> (Metrics list \<times> (string \<times> json) list option \<times> error option \<times> kubelet_state) outcome" where
  "GetMetrics env kubelet scanner tickTime st0 =
     (let st = (collectGarbage env st0)\<lparr>metrics := [], rawResponses := []\<rparr>;
          st1 = emit_cluster scanner tickTime st;
          st2 = emit_capacities scanner tickTime st1;
          st3 = emit_spec scanner tickTime st2
      in case NewConcurrentProcessor_err env of
           Some err \<Rightarrow> Panic err
         | None \<Rightarrow>
             (case Do (node_task env kubelet scanner tickTime) (GetNodes scanner) st3 of
                (errs, st4) \<Rightarrow>
                  Return (metrics st4,
                          (if optInAnalysisData kubelet then Some (rawResponses st4) else None),
                          None, st4)))"

section \<open>Platform resources (kuber/kube.go)\<close>

definition milliCore :: real where
  "milliCore = 1000"

definition maskedValue :: string where
  "maskedValue = ''**MASKED**''"

text \<open>
  The fields of \<^verbatim>\<open>kv1.EnvVar\<close>, \<^verbatim>\<open>kv1.Container\<close> and \<^verbatim>\<open>kv1.PodSpec\<close> that the code writes, and
  some that it leaves alone. A slice is its list of elements; nil and empty are not
  told apart.
\<close>

record EnvVar =
  env_Name :: string
  env_Value :: string

record kv1_Container =
  kc_Name :: string
  Image :: string
  Command :: "string list"
  Args :: "string list"
  Env :: "EnvVar list"

record PodSpec =
  spec_Containers :: "kv1_Container list"
  InitContainers :: "kv1_Container list"

definition maskArgs :: "string list \<Rightarrow> string list" where
  "maskArgs args = map (\<lambda>arg. maskedValue) args"

definition maskEnvVars :: "EnvVar list \<Rightarrow> EnvVar list" where
  "maskEnvVars env =
     map (\<lambda>envVar. if env_Value envVar \<noteq> [] then envVar\<lparr>env_Value := maskedValue\<rparr> else envVar) env"

definition maskContainers :: "kv1_Container list \<Rightarrow> kv1_Container list" where
  "maskContainers containers =
     map (\<lambda>container. container\<lparr>Env := maskEnvVars (Env container),
                                 Args := maskArgs (Args container)\<rparr>) containers"

text \<open>
  The fields of a listed or fetched object (Deployment, StatefulSet, DaemonSet,
  ReplicaSet, CronJob) that the code reads. In each of these library types the pod
  template is a field held by value, so it is part of the object and copied with it.
  \<^verbatim>\<open>Spec.Replicas\<close>, \<^verbatim>\<open>UpdateStrategy.RollingUpdate\<close> and its \<^verbatim>\<open>Partition\<close> are pointers
  that may be nil.
\<close>

record Workload =
  w_Namespace :: string
  w_Name :: string
  Spec_Replicas :: "int32 option"
  UpdateStrategy_Type :: string
  UpdateStrategy_RollingUpdate :: "int32 option option"
  Template_Spec :: PodSpec

text \<open>
  \<^verbatim>\<open>maskPodSpec\<close> writes through a pointer, and what its callers see depends on where the
  pointer leads. The store holds the three places a pod spec can live in at the call
  sites: the elements of the \<^verbatim>\<open>Items\<close> slice of a list object, the loop variable
  \<^verbatim>\<open>item\<close> of a \<^verbatim>\<open>range\<close> loop, and the object behind a \<^verbatim>\<open>*v1.StatefulSet\<close>. The helpers
  \<^verbatim>\<open>maskContainers\<close>, \<^verbatim>\<open>maskEnvVars\<close> and \<^verbatim>\<open>maskArgs\<close> build new slices and never write
  into the ones they read.
\<close>

record store =
  Items :: "Workload list"
  item :: "Workload option"
  object :: "Workload option"

datatype podspec_ptr = in_Items nat | in_item | in_object

definition deref :: "podspec_ptr \<Rightarrow> store \<Rightarrow> PodSpec option" where
  "deref p s =
     (case p of
        in_Items i \<Rightarrow> (if i < length (Items s) then Some (Template_Spec (Items s ! i)) else None)
      | in_item \<Rightarrow> map_option Template_Spec (item s)
      | in_object \<Rightarrow> map_option Template_Spec (object s))"

definition assign :: "podspec_ptr \<Rightarrow> PodSpec \<Rightarrow> store \<Rightarrow> store" where
  "assign p v s =
     (case p of
        in_Items i \<Rightarrow> s\<lparr>Items := (Items s)[i := (Items s ! i)\<lparr>Template_Spec := v\<rparr>]\<rparr>
      | in_item \<Rightarrow> s\<lparr>item := map_option (\<lambda>w. w\<lparr>Template_Spec := v\<rparr>) (item s)\<rparr>
      | in_object \<Rightarrow> s\<lparr>object := map_option (\<lambda>w. w\<lparr>Template_Spec := v\<rparr>) (object s)\<rparr>)"

definition maskPodSpec :: "podspec_ptr \<Rightarrow> store \<Rightarrow> store" where
  "maskPodSpec podSpec s =
     (case deref podSpec s of
        None \<Rightarrow> s
      | Some v \<Rightarrow>
          (let v1 = v\<lparr>spec_Containers := maskContainers (spec_Containers v)\<rparr>;
               v2 = v1\<lparr>InitContainers := maskContainers (InitContainers v1)\<rparr>
           in assign podSpec v2 s))"

text \<open>
  \<^verbatim>\<open>for _, item := range list.Items { maskPodSpec(&item.Spec.Template.Spec) }\<close>: each
  round copies element \<^verbatim>\<open>i\<close> into \<^verbatim>\<open>item\<close> and passes a pointer into \<^verbatim>\<open>item\<close>.
\<close>

definition range_body :: "nat \<Rightarrow> store \<Rightarrow> store" where
  "range_body i s = maskPodSpec in_item (s\<lparr>item := Some (Items s ! i)\<rparr>)"

definition range_Items :: "store \<Rightarrow> store" where
  "range_Items s = fold range_body [0..<length (Items s)] s"

datatype kube_error =
    UnableToRetrieve string
  | UnableToGetSts kube_error
  | NothingToChange
  | PartitionNotZero
  | StrategyNotRollingUpdate
  | InvalidContainerResources string
  | PatchFailed string

text \<open>
  A list call of the platform client answers with an error message, or with a list
  object (possibly nil). The five operations over objects that hold their template by
  value are the same code up to the client they call.
\<close>

definition list_and_mask :: "string + Workload list option \<Rightarrow> kube_error + Workload list option" where
  "list_and_mask response =
     (case response of
        Inl msg \<Rightarrow> Inl (UnableToRetrieve msg)
      | Inr None \<Rightarrow> Inr None
      | Inr (Some items) \<Rightarrow>
          Inr (Some (Items (range_Items \<lparr>Items = items, item = None, object = None\<rparr>))))"

definition GetDeployments :: "string + Workload list option \<Rightarrow> kube_error + Workload list option" where
  "GetDeployments response = list_and_mask response"

definition GetStatefulSets :: "string + Workload list option \<Rightarrow> kube_error + Workload list option" where
  "GetStatefulSets response = list_and_mask response"

definition GetDaemonSets :: "string + Workload list option \<Rightarrow> kube_error + Workload list option" where
  "GetDaemonSets response = list_and_mask response"

definition GetReplicaSets :: "string + Workload list option \<Rightarrow> kube_error + Workload list option" where
  "GetReplicaSets response = list_and_mask response"

definition GetCronJobs :: "string + Workload list option \<Rightarrow> kube_error + Workload list option" where
  "GetCronJobs response = list_and_mask response"

text \<open>
  \<^verbatim>\<open>GetStatefulSet\<close> holds a pointer to the object and masks the pod spec inside it.
\<close>

definition GetStatefulSet :: "string + Workload option \<Rightarrow> kube_error + Workload option" where
  "GetStatefulSet response =
     (case response of
        Inl msg \<Rightarrow> Inl (UnableToRetrieve msg)
      | Inr None \<Rightarrow> Inr None
      | Inr (Some statefulSet) \<Rightarrow>
          Inr (object (maskPodSpec in_object \<lparr>Items = [], item = None, object = Some statefulSet\<rparr>)))"

subsection \<open>SetResources\<close>

record RequestLimit =
  CPU :: "int64 option"
  Memory :: "int64 option"

record ContainerResourcesRequirements =
  crr_Name :: string
  Requests :: RequestLimit
  Limits :: RequestLimit

record TotalResources =
  Replicas :: "int option"
  tr_Containers :: "ContainerResourcesRequirements list"

text \<open>
  The patch body as the tree that is handed to \<^verbatim>\<open>json.Marshal\<close>, which cannot fail on
  it. A memory quantity is the number that \<^verbatim>\<open>"%dMi"\<close> prints, a CPU quantity the
  quotient by \<^verbatim>\<open>milliCore\<close>.
\<close>

datatype quantity = Mi int64 | Cores real

type_synonym resources_map = "(string \<times> (string \<times> quantity) list) list"

record container_spec_patch =
  patch_name :: string
  patch_resources :: resources_map

record patch_body =
  body_kind :: string
  spec_template_containers :: "container_spec_patch list option"
  spec_replicas :: "int option"

record patch_request =
  req_Resource :: string
  req_Namespace :: string
  req_Name :: string
  req_Body :: patch_body

definition set_resource :: "string \<Rightarrow> string \<Rightarrow> quantity \<Rightarrow> resources_map \<Rightarrow> resources_map" where
  "set_resource section key q resources =
     (let resources' = (case map_of resources section of
                          None \<Rightarrow> AList.update section [] resources
                        | Some m \<Rightarrow> resources)
      in AList.map_entry section (AList.update key q) resources')"

definition container_resources :: "ContainerResourcesRequirements \<Rightarrow> resources_map" where
  "container_resources container =
     (let r0 = [];
          r1 = (case Memory (Limits container) of
                  Some m \<Rightarrow> set_resource ''limits'' ''memory'' (Mi m) r0 | None \<Rightarrow> r0);
          r2 = (case CPU (Limits container) of
                  Some c \<Rightarrow> set_resource ''limits'' ''cpu'' (Cores (real_of_int (sint c) / milliCore)) r1
                | None \<Rightarrow> r1);
          r3 = (case Memory (Requests container) of
                  Some m \<Rightarrow> set_resource ''requests'' ''memory'' (Mi m) r2 | None \<Rightarrow> r2);
          r4 = (case CPU (Requests container) of
                  Some c \<Rightarrow> set_resource ''requests'' ''cpu'' (Cores (real_of_int (sint c) / milliCore)) r3
                | None \<Rightarrow> r3)
      in r4)"

fun containerSpecs_of ::
  "ContainerResourcesRequirements list \<Rightarrow> kube_error + container_spec_patch list" where
  "containerSpecs_of [] = Inr []"
| "containerSpecs_of (container # rest) =
     (let resources = container_resources container
      in if length resources = 0 then Inl (InvalidContainerResources (crr_Name container))
         else (case containerSpecs_of rest of
                 Inl e \<Rightarrow> Inl e
               | Inr specs \<Rightarrow>
                   Inr (\<lparr>patch_name = crr_Name container, patch_resources = resources\<rparr> # specs)))"

text \<open>\<^verbatim>\<open>strings.ToLower\<close>, on ASCII letters.\<close>

definition strings_ToLower :: "string \<Rightarrow> string" where
  "strings_ToLower s =
     map (\<lambda>c. case map_of (zip ''ABCDEFGHIJKLMNOPQRSTUVWXYZ'' ''abcdefghijklmnopqrstuvwxyz'') c of
                 Some l \<Rightarrow> l
               | None \<Rightarrow> c) s"

text \<open>
  Modelled from the spec: the library constant \<^verbatim>\<open>v1.RollingUpdateStatefulSetStrategyType\<close>,
  which the spec writes RollingUpdate.
\<close>

definition RollingUpdateStatefulSetStrategyType :: string where
  "RollingUpdateStatefulSetStrategyType = ''RollingUpdate''"

text \<open>
  The platform as \<^verbatim>\<open>SetResources\<close> meets it: what a fetch of the stateful set answers,
  and the error, if any, that a patch request comes back with.
\<close>

record Platform =
  Get_StatefulSet :: "string \<Rightarrow> string \<Rightarrow> string + Workload option"
  Patch :: "patch_request \<Rightarrow> string option"

text \<open>
  The guard for stateful sets: \<^verbatim>\<open>None\<close> when the call may go on, otherwise the early
  return. A nil object with a nil error from the fetch makes the code panic.
\<close>

definition statefulSet_guard ::
  "Platform \<Rightarrow> string \<Rightarrow> string \<Rightarrow> (bool \<times> kube_error) option outcome" where
  "statefulSet_guard platform name namespace =
     (case GetStatefulSet (Get_StatefulSet platform namespace name) of
        Inl err \<Rightarrow> Return (Some (False, UnableToGetSts err))
      | Inr None \<Rightarrow> Panic ''nil pointer dereference''
      | Inr (Some statefulSet) \<Rightarrow>
          (case Spec_Replicas statefulSet of
             None \<Rightarrow> Return None
           | Some replicas \<Rightarrow>
               if 1 <s replicas then
                 (if UpdateStrategy_Type statefulSet = RollingUpdateStatefulSetStrategyType
                  then (case UpdateStrategy_RollingUpdate statefulSet of
                          None \<Rightarrow> Return None
                        | Some None \<Rightarrow> Return None
                        | Some (Some partitionValue) \<Rightarrow>
                            if partitionValue \<noteq> 0 then Return (Some (True, PartitionNotZero))
                            else Return None)
                  else Return (Some (True, StrategyNotRollingUpdate)))
               else Return None))"

text \<open>
  \<^verbatim>\<open>SetResources\<close> returns \<^verbatim>\<open>skipped\<close> and its error; the third component lists the
  patch requests it has sent.
\<close>

definition send_patch ::
  "Platform \<Rightarrow> string \<Rightarrow> string \<Rightarrow> string \<Rightarrow> TotalResources
     \<Rightarrow> (bool \<times> kube_error option \<times> patch_request list) outcome" where
  "send_patch platform kind name namespace totalResources =
     (case containerSpecs_of (tr_Containers totalResources) of
        Inl e \<Rightarrow> Return (False, Some e, [])
      | Inr containerSpecs \<Rightarrow>
          (let body = \<lparr>body_kind = kind,
                       spec_template_containers =
                         (if length containerSpecs > 0 then Some containerSpecs else None),
                       spec_replicas =
                         (case Replicas totalResources of
                            Some r \<Rightarrow> (if r > 0 then Some r else None)
                          | None \<Rightarrow> None)\<rparr>;
               req = \<lparr>req_Resource = kind @ ''s'', req_Namespace = namespace, req_Name = name,
                      req_Body = body\<rparr>
           in Return (False, map_option PatchFailed (Patch platform req), [req])))"

definition SetResources ::
  "Platform \<Rightarrow> string \<Rightarrow> string \<Rightarrow> string \<Rightarrow> TotalResources
     \<Rightarrow> (bool \<times> kube_error option \<times> patch_request list) outcome" where
  "SetResources platform kind name namespace totalResources =
     (if length (tr_Containers totalResources) = 0 \<and> Replicas totalResources = None
      then Return (False, Some NothingToChange, [])
      else if strings_ToLower kind = ''statefulset''
      then (case statefulSet_guard platform name namespace of
              Panic msg \<Rightarrow> Panic msg
            | Return (Some (skipped, err)) \<Rightarrow> Return (skipped, Some err, [])
            | Return None \<Rightarrow> send_patch platform kind name namespace totalResources)
      else send_patch platform kind name namespace totalResources)"

section \<open>Notions used in the statements\<close>

text \<open>
  The state of a kubelet fresh from \<^verbatim>\<open>NewKubelet\<close>: an empty rate table, nothing
  requested, nothing slept.
\<close>

definition NewKubelet_state :: kubelet_state where
  "NewKubelet_state =
     \<lparr>metrics = [], rawResponses = [], previous = Map.empty, summaryBytes = [],
      cadvisorResponse = [], requests = 0, slept = []\<rparr>"

text \<open>
  The identifier rule in the words of the spec: a record carries exactly the non-nil
  identifiers its type requires.
\<close>

definition ids_required_by_type :: "Metrics \<Rightarrow> bool" where
  "ids_required_by_type m =
     ((Type m = TypeCluster \<longrightarrow>
         Node m = uuid_Nil \<and> Application m = uuid_Nil \<and> Service m = uuid_Nil \<and>
         Container m = uuid_Nil) \<and>
      (Type m = TypeNode \<longrightarrow>
         Node m \<noteq> uuid_Nil \<and> Application m = uuid_Nil \<and> Service m = uuid_Nil \<and>
         Container m = uuid_Nil) \<and>
      (Type m = TypePod \<longrightarrow>
         Node m \<noteq> uuid_Nil \<and> Application m \<noteq> uuid_Nil \<and> Service m \<noteq> uuid_Nil \<and>
         Container m = uuid_Nil) \<and>
      (Type m = TypePodContainer \<longrightarrow>
         Node m \<noteq> uuid_Nil \<and> Application m \<noteq> uuid_Nil \<and> Service m \<noteq> uuid_Nil \<and>
         Container m \<noteq> uuid_Nil))"

text \<open>
  The rule the code keeps: as above, except that a container-scope record need not name
  a node.
\<close>

definition ids_by_scope :: "Metrics \<Rightarrow> bool" where
  "ids_by_scope m =
     ((Type m = TypeCluster \<longrightarrow>
         Node m = uuid_Nil \<and> Application m = uuid_Nil \<and> Service m = uuid_Nil \<and>
         Container m = uuid_Nil) \<and>
      (Type m = TypeNode \<longrightarrow>
         Node m \<noteq> uuid_Nil \<and> Application m = uuid_Nil \<and> Service m = uuid_Nil \<and>
         Container m = uuid_Nil) \<and>
      (Type m = TypePod \<longrightarrow>
         Node m \<noteq> uuid_Nil \<and> Application m \<noteq> uuid_Nil \<and> Service m \<noteq> uuid_Nil \<and>
         Container m = uuid_Nil) \<and>
      (Type m = TypePodContainer \<longrightarrow>
         Application m \<noteq> uuid_Nil \<and> Service m \<noteq> uuid_Nil \<and> Container m \<noteq> uuid_Nil))"

text \<open>Every identifier the scanner hands out is set.\<close>

definition scanner_ids_set :: "Scanner \<Rightarrow> bool" where
  "scanner_ids_set scanner =
     ((\<forall>node \<in> set (GetNodes scanner). node_ID node \<noteq> uuid_Nil) \<and>
      (\<forall>app \<in> set (GetApplications scanner).
         application_ID app \<noteq> uuid_Nil \<and>
         (\<forall>service \<in> set (Services app).
            service_ID service \<noteq> uuid_Nil \<and>
            (\<forall>container \<in> set (service_Containers service).
               container_ID container \<noteq> uuid_Nil))) \<and>
      (\<forall>namespace pod applicationID serviceID.
         FindService scanner namespace pod = Some (applicationID, serviceID) \<longrightarrow>
         applicationID \<noteq> uuid_Nil \<and> serviceID \<noteq> uuid_Nil) \<and>
      (\<forall>namespace pod name applicationID serviceID identifiedContainer.
         FindContainer scanner namespace pod name =
           Some (applicationID, serviceID, identifiedContainer) \<longrightarrow>
         applicationID \<noteq> uuid_Nil \<and> serviceID \<noteq> uuid_Nil \<and>
         container_ID identifiedContainer \<noteq> uuid_Nil))"

text \<open>
  A step of the scraper appends to the batch, and every record it appends has
  identifiers and type as \<open>R\<close> says.
\<close>

definition appends ::
  "(string \<Rightarrow> uuid \<Rightarrow> uuid \<Rightarrow> uuid \<Rightarrow> uuid \<Rightarrow> bool) \<Rightarrow> kubelet_state \<Rightarrow> kubelet_state \<Rightarrow> bool" where
  "appends R st st' =
     (\<exists>ms. metrics st' = metrics st @ ms \<and>
           (\<forall>m \<in> set ms. R (Type m) (Node m) (Application m) (Service m) (Container m)))"

text \<open>A step whose contribution to the batch does not depend on the state it starts in.\<close>

definition appender :: "(kubelet_state \<Rightarrow> kubelet_state) \<Rightarrow> bool" where
  "appender f = (\<forall>st. metrics (f st) = metrics st @ metrics (f NewKubelet_state))"

text \<open>The per-container spec records that a cycle emits from the snapshot.\<close>

definition spec_records :: "Scanner \<Rightarrow> time \<Rightarrow> Metrics list" where
  "spec_records scanner tickTime = metrics (emit_spec scanner tickTime NewKubelet_state)"

text \<open>Every entry of the throttle map of a node's task has identifiers as \<open>R\<close> says.\<close>

definition throttle_within ::
  "(string \<Rightarrow> uuid \<Rightarrow> uuid \<Rightarrow> uuid \<Rightarrow> uuid \<Rightarrow> bool) \<Rightarrow> uuid \<Rightarrow> throttle_map \<Rightarrow> bool" where
  "throttle_within R nodeID throttleMetrics =
     (\<forall>(containerID, storedMetrics) \<in> set throttleMetrics.
        \<forall>(metricName, storedMetric) \<in> set storedMetrics.
          R TypePodContainer nodeID (cms_ApplicationID storedMetric)
            (cms_ServiceID storedMetric) (cms_ContainerID storedMetric))"

text \<open>
  What a node task puts on the records it emits for a node whose identifier is set, given
  that the scanner's identifiers are set.
\<close>

definition node_task_ids :: "string \<Rightarrow> uuid \<Rightarrow> uuid \<Rightarrow> uuid \<Rightarrow> uuid \<Rightarrow> bool" where
  "node_task_ids typ n a s c =
     (n \<noteq> uuid_Nil \<and>
      ((typ = TypeNode \<and> a = uuid_Nil \<and> s = uuid_Nil \<and> c = uuid_Nil) \<or>
       (typ = TypePod \<and> a \<noteq> uuid_Nil \<and> s \<noteq> uuid_Nil \<and> c = uuid_Nil) \<or>
       (typ = TypePodContainer \<and> a \<noteq> uuid_Nil \<and> s \<noteq> uuid_Nil \<and> c \<noteq> uuid_Nil)))"

subsection \<open>Sample inputs\<close>

text \<open>What \<^verbatim>\<open>json.Unmarshal\<close> makes of the document \<^verbatim>\<open>{}\<close>: the zero value.\<close>

definition zero_KubeletSummary :: KubeletSummary where
  "zero_KubeletSummary =
     \<lparr>summary_Node =
        \<lparr>node_CPU_Time = time_zero, node_CPU_UsageCoreNanoSeconds = 0,
         node_Memory_Time = time_zero, node_Memory_RSSBytes = 0,
         FS_Time = time_zero, FS_UsedBytes = 0, FS_CapacityBytes = 0,
         node_Network = \<lparr>net_Time = time_zero, RxBytes = 0, RxErrors = 0, TxBytes = 0,
                          TxErrors = 0\<rparr>\<rparr>,
      Pods = []\<rparr>"

text \<open>A kubelet of an older platform version, which serves neither endpoint.\<close>

definition old_kubelet :: Collaborators where
  "old_kubelet =
     \<lparr>GetBytes = (\<lambda>node path n. ([], Some ''the server could not find the requested resource'')),
      Unmarshal_interface = (\<lambda>b. if b = ''{}'' then Inr (JObject [])
                                  else Inl ''unexpected end of JSON input''),
      Unmarshal_summary = (\<lambda>b. if b = ''{}'' then Inr zero_KubeletSummary
                                else Inl ''unexpected end of JSON input''),
      decodeCAdvisorResponse = (\<lambda>b. if b = [] then Inr (\<lambda>ref. []) else Inl ''unexpected input''),
      getCAdvisorContainerValue = (\<lambda>sample. ([], [], snd sample, False)),
      uuid_String = (\<lambda>u. if u = 1 then ''n1'' else ''n''),
      Now_collectGarbage = 1000000,
      Now_task = (\<lambda>node. 1000000),
      NewConcurrentProcessor_err = None\<rparr>"

text \<open>A kubelet that refuses every connection.\<close>

definition unreachable_kubelet :: Collaborators where
  "unreachable_kubelet =
     old_kubelet\<lparr>GetBytes := (\<lambda>node path n. ([], Some ''connection refused''))\<rparr>"

definition default_kubelet :: Kubelet where
  "default_kubelet =
     \<lparr>backoff_sleep = 300000000, backoff_maxRetries = 5, optInAnalysisData = False\<rparr>"

definition node_n1 :: kuber_Node where
  "node_n1 =
     \<lparr>node_ID = 1, node_Name = ''n1'', InstanceType = ''m5'', InstanceSize = ''large'',
      Capacity_CPU = 2000, Capacity_Memory = 8000000000,
      Allocatable_CPU = 1900, Allocatable_Memory = 7000000000\<rparr>"

definition web_container :: scanner_Container where
  "web_container =
     \<lparr>container_ID = 30,
      Spec_Requests_Cpu_MilliValue = 150, Spec_Limits_Cpu_MilliValue = 250,
      Spec_Requests_Memory_Value = 32000000, Spec_Limits_Memory_Value = 96000000,
      Requests_Cpu_MilliValue = 100, Limits_Cpu_MilliValue = 200,
      Requests_Memory_Value = 64000000, Limits_Memory_Value = 128000000\<rparr>"

text \<open>A snapshot with one node and one application of one service with one container.\<close>

definition one_node_scanner :: Scanner where
  "one_node_scanner =
     \<lparr>GetNodes = [node_n1], NodesLastScanTime = 500000,
      GetApplications =
        [\<lparr>application_ID = 10,
          Services = [\<lparr>service_ID = 20, service_Containers = [web_container]\<rparr>]\<rparr>],
      AppsLastScanTime = 600000,
      FindService = (\<lambda>namespace pod. if namespace = ''default'' \<and> pod = ''web-0''
                                       then Some (10, 20) else None),
      FindContainer = (\<lambda>namespace pod name.
                         if namespace = ''default'' \<and> pod = ''web-0'' \<and> name = ''web''
                         then Some (10, 20, web_container) else None),
      FindContainerByPodUIDContainerName = (\<lambda>podUID name. None)\<rparr>"

text \<open>
  A pod whose container \<^verbatim>\<open>web\<close> is reported twice, started at 100 and at 105, and
  which has received 5000 bytes and sent 7000.
\<close>

definition web_started :: "time \<Rightarrow> int64 \<Rightarrow> KubeletSummaryContainer" where
  "web_started t usage =
     \<lparr>ksc_Name = ''web'', StartTime = t, CPU_Time = 2000000000,
      CPU_UsageCoreNanoSeconds = usage, Memory_Time = 2000000000, Memory_RSSBytes = 1000,
      RootFS_Time = 2000000000, RootFS_UsedBytes = 10\<rparr>"

definition web_pod :: SummaryPod where
  "web_pod =
     \<lparr>PodRef_Name = ''web-0'', PodRef_Namespace = ''default'',
      Containers = [web_started 100 111, web_started 105 222],
      pod_Network = \<lparr>net_Time = 2000000000, RxBytes = 5000, RxErrors = 0, TxBytes = 7000,
                      TxErrors = 0\<rparr>\<rparr>"

text \<open>
  A stateful set of three replicas with update strategy \<^verbatim>\<open>OnDelete\<close> and a password in
  its pod template, and a platform that holds it.
\<close>

definition secret_workload :: Workload where
  "secret_workload =
     \<lparr>w_Namespace = ''default'', w_Name = ''db'', Spec_Replicas = Some 3,
      UpdateStrategy_Type = ''OnDelete'', UpdateStrategy_RollingUpdate = None,
      Template_Spec =
        \<lparr>spec_Containers =
           [\<lparr>kc_Name = ''db'', Image = ''postgres:11'', Command = [''postgres''],
             Args = [''--password=hunter2''],
             Env = [\<lparr>env_Name = ''PGPASSWORD'', env_Value = ''hunter2''\<rparr>]\<rparr>],
         InitContainers = []\<rparr>\<rparr>"

definition on_delete_platform :: Platform where
  "on_delete_platform =
     \<lparr>Get_StatefulSet = (\<lambda>namespace name. Inr (Some secret_workload)),
      Patch = (\<lambda>req. None)\<rparr>"

text \<open>The same pod two seconds later: 6000 bytes received, 9000 sent.\<close>

definition web_pod_later :: SummaryPod where
  "web_pod_later =
     \<lparr>PodRef_Name = ''web-0'', PodRef_Namespace = ''default'',
      Containers = [web_started 105 333],
      pod_Network = \<lparr>net_Time = 4000000000, RxBytes = 6000, RxErrors = 0, TxBytes = 9000,
                      TxErrors = 0\<rparr>\<rparr>"

text \<open>The batch a cycle returns; a cycle that panics returns none.\<close>

fun batch_of ::
  "(Metrics list \<times> (string \<times> json) list option \<times> error option \<times> kubelet_state) outcome
     \<Rightarrow> Metrics list" where
  "batch_of (Return (batch, raw, err, st)) = batch"
| "batch_of (Panic msg) = []"



text \<open>
  A second node, and kubelets of which the one on the first node refuses every
  connection while the one on the second serves neither endpoint.
\<close>

definition node_n2 :: kuber_Node where
  "node_n2 =
     \<lparr>node_ID = 2, node_Name = ''n2'', InstanceType = ''m5'', InstanceSize = ''large'',
      Capacity_CPU = 2000, Capacity_Memory = 8000000000,
      Allocatable_CPU = 1900, Allocatable_Memory = 7000000000\<rparr>"

definition two_node_scanner :: Scanner where
  "two_node_scanner = one_node_scanner\<lparr>GetNodes := [node_n1, node_n2]\<rparr>"

definition first_unreachable :: Collaborators where
  "first_unreachable =
     old_kubelet\<lparr>GetBytes := (\<lambda>node path n.
        if node_ID node = 1 then ([], Some ''connection refused'')
        else ([], Some ''the server could not find the requested resource''))\<rparr>"

section \<open>Properties of the rate table\<close>

lemma sint_int64_of_int:
  "- (2 ^ 63) \<le> k \<Longrightarrow> k < 2 ^ 63 \<Longrightarrow> sint (word_of_int k :: int64) = k"
  by (simp add: signed_of_int signed_take_bit_int_eq_self)

lemma sint_int64_mult:
  assumes "- (2 ^ 63) \<le> sint a * sint b" and "sint a * sint b < 2 ^ 63"
  shows "sint (a * b :: int64) = sint a * sint b"
proof -
  have "a * b = word_of_int (sint a * sint b)"
    by simp
  then show ?thesis
    using sint_int64_of_int [OF assms] by simp
qed

lemma int_div_le: "0 \<le> (k::int) \<Longrightarrow> k div l \<le> k"
  by (cases "k = 0") (simp_all add: int_div_le_self)

lemma sdiv_pos_bounds:
  assumes "- (2 ^ 63) \<le> (k::int)" and "k < 2 ^ 63" and "0 < l"
  shows "- (2 ^ 63) \<le> k sdiv l \<and> k sdiv l < 2 ^ 63"
proof (cases "0 \<le> k")
  case True
  then have "k sdiv l = k div l"
    using assms(3) by (cases "k = 0") (simp_all add: signed_divide_int_def)
  moreover have "0 \<le> k div l" "k div l \<le> k"
    using True assms(3) by (simp_all add: pos_imp_zdiv_nonneg_iff int_div_le)
  ultimately show ?thesis
    using assms(2) by simp
next
  case False
  then have e: "k sdiv l = - ((- k) div l)"
    using assms(3) by (simp add: signed_divide_int_def)
  have "0 \<le> (- k) div l" "(- k) div l \<le> - k"
    using False assms(3) by (simp_all add: pos_imp_zdiv_nonneg_iff int_div_le)
  then show ?thesis
    using e assms(1) by simp
qed

lemma sint_int64_div:
  assumes "0 < sint b"
  shows "sint (int64_div a b) = sint a sdiv sint b"
proof -
  have "- (2 ^ 63) \<le> sint a" "sint a < 2 ^ 63"
    using sint_ge [of a] sint_lt [of a] by simp_all
  then have "- (2 ^ 63) \<le> sint a sdiv sint b \<and> sint a sdiv sint b < 2 ^ 63"
    using assms by (rule sdiv_pos_bounds)
  then show ?thesis
    by (simp add: int64_div_def sint_int64_of_int)
qed

lemma sint_UnixNano_distance:
  assumes "- (2 ^ 63) \<le> t1 - t0" and "t1 - t0 < 2 ^ 63"
  shows "sint (UnixNano t1 - UnixNano t0) = t1 - t0"
proof -
  have "UnixNano t1 - UnixNano t0 = word_of_int (t1 - t0)"
    by (simp add: UnixNano_def)
  then show ?thesis
    using sint_int64_of_int [OF assms] by simp
qed

text \<open>
  C4, as the claim states it, fails: \<^verbatim>\<open>calcRate\<close> multiplies in \<^verbatim>\<open>int64\<close> before it
  divides, and the product wraps. With the point (0 s, 20000000000) stored, the new point
  (2 s, 10000000000) and the multiplier 1000000000 of the network rates, the distance
  exceeds one second, the value has dropped, and the rate returned is -4223372036, while
  1000000000 * 10000000000 / 2000000000 is 5000000000.
\<close>

theorem calcRate_product_wraps:
  "Second <s UnixNano 2000000000 - UnixNano 0 \<and> (10000000000 :: int64) <s 20000000000 \<and>
   calcRate [''pod-network/tx_rate:default:web-0'' \<mapsto>
               \<lparr>kv_Timestamp = 0, kv_Value = 20000000000\<rparr>]
     ''pod-network/tx_rate:default:web-0'' 2000000000 10000000000 1000000000
     = Inr (- 4223372036) \<and>
   (1000000000 * 10000000000) sdiv (2000000000 - 0) = (5000000000 :: int)"
  by (simp add: calcRate_def getPreviousValue_def Second_def UnixNano_def int64_div_def
      signed_divide_int_def)

text \<open>
  C4, amended. Counter reset. With a stored point \<open>(t0, v0)\<close> under the key, a new point
  \<open>(t1, v1)\<close> more than one second later (as \<^verbatim>\<open>calcRate\<close> computes the distance, in
  nanoseconds) and \<open>v1 < v0\<close>, and a product \<open>multiplier * v1\<close> that fits \<^verbatim>\<open>int64\<close>,
  the previous value counts as 0: the rate is \<open>multiplier * v1\<close> divided by the
  distance, rounded towards zero; the distance is \<open>t1 - t0\<close> when that fits \<^verbatim>\<open>int64\<close>.
\<close>

theorem calcRate_counter_reset_in_range:
  assumes "prev key = Some \<lparr>kv_Timestamp = t0, kv_Value = v0\<rparr>"
    and "Second <s UnixNano t1 - UnixNano t0"
    and "v1 <s v0"
    and "- (2 ^ 63) \<le> sint multiplier * sint v1"
    and "sint multiplier * sint v1 < 2 ^ 63"
  shows "\<exists>rate. calcRate prev key t1 v1 multiplier = Inr rate \<and>
           sint rate = (sint multiplier * sint v1) sdiv sint (UnixNano t1 - UnixNano t0) \<and>
           (- (2 ^ 63) \<le> t1 - t0 \<and> t1 - t0 < 2 ^ 63 \<longrightarrow>
              sint rate = (sint multiplier * sint v1) sdiv (t1 - t0))"
proof -
  let ?d = "UnixNano t1 - UnixNano t0"
  have pos: "0 < sint ?d"
    using assms(2) by (simp add: word_sless_alt Second_def)
  have "\<not> ?d \<le>s Second"
    using assms(2) by (simp add: word_sle_eq word_sless_alt)
  then have r: "calcRate prev key t1 v1 multiplier = Inr (int64_div (multiplier * v1) ?d)"
    using assms(1,3) by (simp add: calcRate_def getPreviousValue_def)
  have v: "sint (int64_div (multiplier * v1) ?d) = (sint multiplier * sint v1) sdiv sint ?d"
    using sint_int64_div [OF pos, of "multiplier * v1"] sint_int64_mult [OF assms(4,5)] by simp
  show ?thesis
    using r v sint_UnixNano_distance [of t1 t0] by auto
qed

theorem calcRate_counter_reset_in_range_witness:
  "Second <s UnixNano 2000000000 - UnixNano 0 \<and> (5000000 :: int64) <s 1000000000 \<and>
   - (2 ^ 63) \<le> sint (1000 :: int64) * sint (5000000 :: int64) \<and>
   sint (1000 :: int64) * sint (5000000 :: int64) < 2 ^ 63 \<and>
   (\<exists>rate.
      calcRate [''node-cpu/usage_rate:n1'' \<mapsto> \<lparr>kv_Timestamp = 0, kv_Value = 1000000000\<rparr>]
        ''node-cpu/usage_rate:n1'' 2000000000 5000000 1000 = Inr rate \<and>
      sint rate = 2)"
proof -
  have a: "[''node-cpu/usage_rate:n1'' \<mapsto> \<lparr>kv_Timestamp = 0, kv_Value = (1000000000 :: int64)\<rparr>]
             ''node-cpu/usage_rate:n1'' = Some \<lparr>kv_Timestamp = 0, kv_Value = 1000000000\<rparr>"
    by simp
  have b: "Second <s UnixNano 2000000000 - UnixNano 0"
    by (simp add: Second_def UnixNano_def)
  have c: "(5000000 :: int64) <s 1000000000"
    by simp
  have d: "- (2 ^ 63) \<le> sint (1000 :: int64) * sint (5000000 :: int64)"
    by simp
  have e: "sint (1000 :: int64) * sint (5000000 :: int64) < 2 ^ 63"
    by simp
  have f: "(sint (1000 :: int64) * sint (5000000 :: int64)) sdiv (2000000000 - 0) = 2"
    by (simp add: signed_divide_int_def)
  show ?thesis
    using calcRate_counter_reset_in_range
      [where prev = "[''node-cpu/usage_rate:n1'' \<mapsto> \<lparr>kv_Timestamp = 0, kv_Value = 1000000000\<rparr>]"
         and key = "''node-cpu/usage_rate:n1''" and ?t0.0 = 0 and ?v0.0 = 1000000000
         and ?t1.0 = 2000000000 and ?v1.0 = 5000000 and multiplier = 1000, OF a b c d e]
      b c d e f
    by auto
qed

text \<open>
  C5. A rate that cannot be computed. \<^verbatim>\<open>addMetricValueRate\<close> stores the new point
  under the key whatever \<^verbatim>\<open>calcRate\<close> answers (the timestamp is the tick time when the
  given one is the zero time); \<^verbatim>\<open>calcRate\<close> fails exactly when the key has no previous
  point or the new timestamp is at most one second past the stored one; and when it
  fails the batch stays as it was.
\<close>

theorem rate_failure_stores_point:
  "(let key = getKey measurementType parentKey entityKey measurement;
        ts = (if timestamp = time_zero then tickTime else timestamp);
        st' = addMetricValueRate tickTime measurementType parentKey entityKey measurement nodeID
                applicationID serviceID containerID pod timestamp val multiplier st
    in previous st' = (previous st)(key \<mapsto> \<lparr>kv_Timestamp = ts, kv_Value = val\<rparr>) \<and>
       ((\<exists>e. calcRate (previous st) key ts val multiplier = Inl e) \<longleftrightarrow>
          (previous st key = None \<or>
           (\<exists>p. previous st key = Some p \<and> UnixNano ts - UnixNano (kv_Timestamp p) \<le>s Second))) \<and>
       ((\<exists>e. calcRate (previous st) key ts val multiplier = Inl e) \<longrightarrow> metrics st' = metrics st))"
  by (auto simp add: Let_def addMetricValueRate_def calcRate_def getPreviousValue_def
      updatePreviousValue_def addMetricValue_def split: option.splits sum.splits)

theorem rate_failure_stores_point_witness:
  "(\<exists>e. calcRate (previous NewKubelet_state) ''node-cpu/usage_rate:n1'' 5 100 1000 = Inl e) \<and>
   metrics (addMetricValueRate 7 TypeNode [] ''n1'' ''cpu/usage_rate'' 1 0 0 0 [] 5 100 1000
              NewKubelet_state) = [] \<and>
   previous (addMetricValueRate 7 TypeNode [] ''n1'' ''cpu/usage_rate'' 1 0 0 0 [] 5 100 1000
               NewKubelet_state) ''node-cpu/usage_rate:n1''
     = Some \<lparr>kv_Timestamp = 5, kv_Value = 100\<rparr>"
  using rate_failure_stores_point
    [of TypeNode "[]" "''n1''" "''cpu/usage_rate''" 5 7 1 0 0 0 "[]" 100 1000 NewKubelet_state]
  by (simp add: Let_def getKey_def TypeNode_def time_zero_def NewKubelet_state_def)

section \<open>Properties of the retry helper\<close>

lemma smod_nonneg: "0 \<le> (a::int) \<Longrightarrow> a smod 10 = a mod 10"
  by (cases "a = 0") (simp_all add: signed_modulo_int_def)

lemma withBackoff_loop_trace:
  assumes "withBackoff_loop kubelet fn t0 st = ((err, tries), st')"
    and "\<forall>s. slept (snd (fn s)) = slept s"
    and "\<forall>s. requests (snd (fn s)) = Suc (requests s)"
    and "0 \<le> t0"
  shows "t0 < tries \<and> tries \<le> max t0 (backoff_maxRetries kubelet) + 1 \<and>
         (err \<noteq> None \<longrightarrow> tries = max t0 (backoff_maxRetries kubelet) + 1) \<and>
         int (requests st') = int (requests st) + (tries - t0) \<and>
         slept st' = slept st @
           map (\<lambda>t. backoff_sleep kubelet * word_of_int ((t - 1) mod 10 + 1)) [t0 + 1..tries - 1]"
  using assms
proof (induction kubelet fn t0 st arbitrary: err tries st' rule: withBackoff_loop.induct)
  case (1 kubelet fn t0 st)
  obtain r st1 where f: "fn st = (r, st1)"
    by force
  have sl: "slept st1 = slept st"
    using "1.prems"(2) f by (metis snd_conv)
  have rq: "requests st1 = Suc (requests st)"
    using "1.prems"(3) f by (metis snd_conv)
  show ?case
  proof (cases r)
    case None
    then have "tries = t0 + 1" "st' = st1"
      using "1.prems"(1) f by (simp_all add: withBackoff_loop.simps [of kubelet fn t0 st])
    then show ?thesis
      using "1.prems"(1) f None sl rq by (simp add: withBackoff_loop.simps [of kubelet fn t0 st])
  next
    case (Some e)
    show ?thesis
    proof (cases "backoff_maxRetries kubelet < t0 + 1")
      case True
      then have "tries = t0 + 1" "st' = st1" "err = Some (MaxRetriesExceeded e)"
        using "1.prems"(1) f Some by (simp_all add: withBackoff_loop.simps [of kubelet fn t0 st])
      then show ?thesis
        using True sl rq by simp
    next
      case False
      define timeout where "timeout = backoff_sleep kubelet * word_of_int ((t0 + 1 - 1) smod 10 + 1)"
      have rec: "withBackoff_loop kubelet fn (t0 + 1) (st1\<lparr>slept := slept st1 @ [timeout]\<rparr>)
                   = ((err, tries), st')"
        using "1.prems"(1) f Some False
        by (simp add: withBackoff_loop.simps [of kubelet fn t0 st] timeout_def)
      have ih: "t0 + 1 < tries \<and> tries \<le> max (t0 + 1) (backoff_maxRetries kubelet) + 1 \<and>
         (err \<noteq> None \<longrightarrow> tries = max (t0 + 1) (backoff_maxRetries kubelet) + 1) \<and>
         int (requests st') = int (requests (st1\<lparr>slept := slept st1 @ [timeout]\<rparr>)) + (tries - (t0 + 1)) \<and>
         slept st' = slept (st1\<lparr>slept := slept st1 @ [timeout]\<rparr>) @
           map (\<lambda>t. backoff_sleep kubelet * word_of_int ((t - 1) mod 10 + 1)) [t0 + 1 + 1..tries - 1]"
        using "1.IH" [OF refl f [symmetric] Some False timeout_def rec "1.prems"(2) "1.prems"(3)]
          "1.prems"(4)
        by simp
      have t: "timeout = backoff_sleep kubelet * word_of_int ((t0 + 1 - 1) mod 10 + 1)"
        using "1.prems"(4) by (simp add: timeout_def smod_nonneg)
      have up: "[t0 + 1..tries - 1] = (t0 + 1) # [t0 + 1 + 1..tries - 1]"
        using ih by (simp add: upto_rec1)
      show ?thesis
        using ih False sl rq t up by simp
    qed
  qed
qed

text \<open>
  C6, as the claim states it, fails: with the default of 5 retries a function that
  fails every time is called six times before the helper gives up.
\<close>

theorem withBackoff_default_calls_six_times:
  "withBackoff \<lparr>backoff_sleep = 300000000, backoff_maxRetries = 5, optInAnalysisData = False\<rparr>
     (\<lambda>st. (Some (ClientError ''connection refused''), st\<lparr>requests := Suc (requests st)\<rparr>))
     NewKubelet_state
   = (Some (MaxRetriesExceeded (ClientError ''connection refused'')),
      NewKubelet_state\<lparr>requests := 6,
        slept := [300000000, 600000000, 900000000, 1200000000, 1500000000]\<rparr>)"
  by (simp add: withBackoff_def withBackoff_loop.simps NewKubelet_state_def signed_modulo_int_def)

text \<open>
  C6, amended. For a wrapped function that makes one request at each call and does not
  sleep itself (as the two fetch closures do) and a retry bound that is not negative:
  the function is called at least once and at most \<^verbatim>\<open>maxRetries + 1\<close> times, exactly
  that often when the helper returns an error, and after the failed call number
  \<open>t\<close> that is followed by another the helper sleeps
  \<open>sleep * ((t - 1) mod 10 + 1)\<close>.
\<close>

theorem withBackoff_calls_and_sleeps:
  assumes "withBackoff_loop kubelet fn 0 st = ((err, tries), st')"
    and "\<forall>s. slept (snd (fn s)) = slept s"
    and "\<forall>s. requests (snd (fn s)) = Suc (requests s)"
    and "0 \<le> backoff_maxRetries kubelet"
  shows "int (requests st') - int (requests st) = tries \<and>
         1 \<le> tries \<and> tries \<le> backoff_maxRetries kubelet + 1 \<and>
         (err \<noteq> None \<longrightarrow> tries = backoff_maxRetries kubelet + 1) \<and>
         slept st' = slept st @
           map (\<lambda>t. backoff_sleep kubelet * word_of_int ((t - 1) mod 10 + 1)) [1..tries - 1]"
  using withBackoff_loop_trace [OF assms(1) assms(2) assms(3)] assms(4) by simp

theorem withBackoff_calls_and_sleeps_witness:
  "withBackoff_loop \<lparr>backoff_sleep = 300000000, backoff_maxRetries = 2, optInAnalysisData = False\<rparr>
     (\<lambda>st. (Some (ClientError ''timeout''), st\<lparr>requests := Suc (requests st)\<rparr>)) 0 NewKubelet_state
   = ((Some (MaxRetriesExceeded (ClientError ''timeout'')), 3),
      NewKubelet_state\<lparr>requests := 3, slept := [300000000, 600000000]\<rparr>) \<and>
   int (requests (NewKubelet_state\<lparr>requests := 3, slept := [300000000, 600000000]\<rparr>))
     - int (requests NewKubelet_state) = 3 \<and>
   (3::int) \<le> 2 + 1 \<and>
   slept (NewKubelet_state\<lparr>requests := 3, slept := [300000000, 600000000]\<rparr>) =
     slept NewKubelet_state @
       map (\<lambda>t. 300000000 * word_of_int ((t - 1) mod 10 + 1)) [1..3 - 1]"
proof -
  let ?k = "\<lparr>backoff_sleep = 300000000, backoff_maxRetries = 2, optInAnalysisData = False\<rparr>"
  let ?fn = "\<lambda>st. (Some (ClientError ''timeout''), st\<lparr>requests := Suc (requests st)\<rparr>)"
  have run: "withBackoff_loop ?k ?fn 0 NewKubelet_state
               = ((Some (MaxRetriesExceeded (ClientError ''timeout'')), 3),
                  NewKubelet_state\<lparr>requests := 3, slept := [300000000, 600000000]\<rparr>)"
    by (simp add: withBackoff_loop.simps NewKubelet_state_def signed_modulo_int_def)
  have a: "\<forall>s. slept (snd (?fn s)) = slept s"
    by simp
  have b: "\<forall>s. requests (snd (?fn s)) = Suc (requests s)"
    by simp
  have c: "0 \<le> backoff_maxRetries ?k"
    by simp
  show ?thesis
    using withBackoff_calls_and_sleeps [OF run a b c] run by simp
qed

section \<open>Properties of a node task\<close>

lemma withBackoff_loop_ok:
  "fn st = (None, st') \<Longrightarrow> withBackoff_loop kubelet fn t st = ((None, t + 1), st')"
  by (simp add: withBackoff_loop.simps [of kubelet fn t st])

text \<open>
  C7. An endpoint that is not there. When the kubelet client answers the summary
  request with an error whose message contains \<^verbatim>\<open>the server could not find the requested
  resource\<close>, the closure sets the bytes to \<^verbatim>\<open>{}\<close> and reports no error; the retry loop,
  at whatever count it stands, returns at once without sleeping or calling again; and
  the node task goes on to process these bytes. The same holds for the cadvisor request,
  with the empty payload, after which the task goes on to decode it.
\<close>

theorem not_found_is_tolerated:
  "(GetBytes env node ''stats/summary'' (requests st) = (bytes, Some msg) \<and>
    strings_Contains msg resource_not_found \<longrightarrow>
      getSummary env node st =
        (None, st\<lparr>summaryBytes := ''{}'', requests := Suc (requests st)\<rparr>) \<and>
      withBackoff_loop kubelet (getSummary env node) t st =
        ((None, t + 1), st\<lparr>summaryBytes := ''{}'', requests := Suc (requests st)\<rparr>) \<and>
      node_task env kubelet scanner tickTime node st =
        process_summary env kubelet scanner tickTime node
          (st\<lparr>summaryBytes := ''{}'', requests := Suc (requests st)\<rparr>)) \<and>
   (GetBytes env node ''metrics/cadvisor'' (requests st) = (bytes', Some msg') \<and>
    strings_Contains msg' resource_not_found \<longrightarrow>
      getCadvisor env node st =
        (None, st\<lparr>cadvisorResponse := [], requests := Suc (requests st)\<rparr>) \<and>
      withBackoff_loop kubelet (getCadvisor env node) t st =
        ((None, t + 1), st\<lparr>cadvisorResponse := [], requests := Suc (requests st)\<rparr>) \<and>
      scrape_cadvisor env kubelet scanner tickTime node summary throttleMetrics st =
        (case decodeCAdvisorResponse env [] of
           Inl e \<Rightarrow>
             (Some (UnableToReadCadvisor e),
              st\<lparr>cadvisorResponse := [], requests := Suc (requests st)\<rparr>)
         | Inr cadvisor \<Rightarrow>
             (None,
              emit_throttle tickTime node summary (Now_task env node)
                (store_cadvisor env scanner cadvisor throttleMetrics)
                (st\<lparr>cadvisorResponse := [], requests := Suc (requests st)\<rparr>))))"
proof (intro conjI impI)
  assume h: "GetBytes env node ''stats/summary'' (requests st) = (bytes, Some msg) \<and>
      strings_Contains msg resource_not_found"
  then show a: "getSummary env node st =
        (None, st\<lparr>summaryBytes := ''{}'', requests := Suc (requests st)\<rparr>)"
    by (simp add: getSummary_def)
  show "withBackoff_loop kubelet (getSummary env node) t st =
        ((None, t + 1), st\<lparr>summaryBytes := ''{}'', requests := Suc (requests st)\<rparr>)"
    using a by (rule withBackoff_loop_ok)
  show "node_task env kubelet scanner tickTime node st =
        process_summary env kubelet scanner tickTime node
          (st\<lparr>summaryBytes := ''{}'', requests := Suc (requests st)\<rparr>)"
    using withBackoff_loop_ok
      [where fn = "getSummary env node" and st = st and kubelet = kubelet and t = 0, OF a]
    by (simp add: node_task_def withBackoff_def)
next
  assume h: "GetBytes env node ''metrics/cadvisor'' (requests st) = (bytes', Some msg') \<and>
      strings_Contains msg' resource_not_found"
  then show a: "getCadvisor env node st =
        (None, st\<lparr>cadvisorResponse := [], requests := Suc (requests st)\<rparr>)"
    by (simp add: getCadvisor_def)
  show "withBackoff_loop kubelet (getCadvisor env node) t st =
        ((None, t + 1), st\<lparr>cadvisorResponse := [], requests := Suc (requests st)\<rparr>)"
    using a by (rule withBackoff_loop_ok)
  show "scrape_cadvisor env kubelet scanner tickTime node summary throttleMetrics st =
        (case decodeCAdvisorResponse env [] of
           Inl e \<Rightarrow>
             (Some (UnableToReadCadvisor e),
              st\<lparr>cadvisorResponse := [], requests := Suc (requests st)\<rparr>)
         | Inr cadvisor \<Rightarrow>
             (None,
              emit_throttle tickTime node summary (Now_task env node)
                (store_cadvisor env scanner cadvisor throttleMetrics)
                (st\<lparr>cadvisorResponse := [], requests := Suc (requests st)\<rparr>)))"
    using withBackoff_loop_ok
      [where fn = "getCadvisor env node" and st = st and kubelet = kubelet and t = 0, OF a]
    by (simp add: scrape_cadvisor_def withBackoff_def Let_def split: sum.splits)
qed

theorem not_found_is_tolerated_witness:
  "GetBytes old_kubelet node_n1 ''stats/summary'' (requests NewKubelet_state)
     = ([], Some ''the server could not find the requested resource'') \<and>
   strings_Contains ''the server could not find the requested resource'' resource_not_found \<and>
   withBackoff_loop default_kubelet (getSummary old_kubelet node_n1) 0 NewKubelet_state =
     ((None, 1), NewKubelet_state\<lparr>summaryBytes := ''{}'', requests := 1\<rparr>) \<and>
   GetBytes old_kubelet node_n1 ''metrics/cadvisor'' (requests NewKubelet_state)
     = ([], Some ''the server could not find the requested resource'') \<and>
   withBackoff_loop default_kubelet (getCadvisor old_kubelet node_n1) 0 NewKubelet_state =
     ((None, 1), NewKubelet_state\<lparr>cadvisorResponse := [], requests := 1\<rparr>)"
proof -
  have a: "GetBytes old_kubelet node_n1 ''stats/summary'' (requests NewKubelet_state)
     = ([], Some ''the server could not find the requested resource'')"
    by (simp add: old_kubelet_def)
  have b: "strings_Contains ''the server could not find the requested resource'' resource_not_found"
    by (simp add: resource_not_found_def)
  have c: "GetBytes old_kubelet node_n1 ''metrics/cadvisor'' (requests NewKubelet_state)
     = ([], Some ''the server could not find the requested resource'')"
    by (simp add: old_kubelet_def)
  have r: "requests NewKubelet_state = 0"
    by (simp add: NewKubelet_state_def)
  show ?thesis
    using not_found_is_tolerated
      [of old_kubelet node_n1 NewKubelet_state "[]"
          "''the server could not find the requested resource''" default_kubelet 0 _ _ "[]"
          "''the server could not find the requested resource''"]
      a b c r
    by simp
qed




text \<open>
  C9. The pod-scope \<^verbatim>\<open>network/rx\<close> and \<^verbatim>\<open>network/rx_rate\<close> records do not read the
  received-bytes counter: for a pod that has received 5000 and sent 7000 bytes, and two
  seconds later 6000 and 9000, \<^verbatim>\<open>network/rx\<close> is 7000, then 9000, and
  \<^verbatim>\<open>network/rx_rate\<close> is 1000 bytes per second, the rate of the bytes sent.
\<close>

theorem pod_network_rx_reads_TxBytes:
  "RxBytes (pod_Network web_pod) = 5000 \<and> RxBytes (pod_Network web_pod_later) = 6000 \<and>
   map (\<lambda>m. (Name m, Value m))
     (metrics (emit_pod_network 700000 node_n1 10 20 web_pod_later
                 (emit_pod_network 700000 node_n1 10 20 web_pod NewKubelet_state)))
   = [(''network/tx'', 7000), (''network/rx'', 7000), (''network/tx_errors'', 0),
      (''network/rx_errors'', 0),
      (''network/tx'', 9000), (''network/rx'', 9000), (''network/tx_errors'', 0),
      (''network/rx_errors'', 0),
      (''network/tx_rate'', 1000), (''network/rx_rate'', 1000), (''network/tx_errors_rate'', 0),
      (''network/rx_errors_rate'', 0)]"
  by (simp add: web_pod_def web_pod_later_def emit_pod_network_def pod_absolutes_def pod_rates_def
      time_zero_def addMetricValue_def addMetricValueRate_def calcRate_def getPreviousValue_def
      NewKubelet_state_def updatePreviousValue_def Let_def getKey_def TypePod_def node_n1_def
      UnixNano_def Second_def int64_div_def signed_divide_int_def web_started_def)

section \<open>Properties of the platform resources\<close>

lemma maskPodSpec_item_Items: "Items (maskPodSpec in_item s) = Items s"
  by (simp add: maskPodSpec_def deref_def assign_def Let_def split: option.splits)

lemma range_body_Items: "Items (range_body i s) = Items s"
  by (simp add: range_body_def maskPodSpec_item_Items)

lemma fold_range_body_Items: "Items (fold range_body is s) = Items s"
  by (induction "is" arbitrary: s) (simp_all add: range_body_Items)

text \<open>The list operations hand back the list as the client delivered it.\<close>

lemma list_and_mask_unchanged: "list_and_mask (Inr (Some items)) = Inr (Some items)"
  by (simp add: list_and_mask_def range_Items_def fold_range_body_Items)

text \<open>\<^verbatim>\<open>GetStatefulSet\<close> hands back the object with both container lists masked.\<close>

lemma GetStatefulSet_masks:
  "GetStatefulSet (Inr (Some w)) =
     Inr (Some (w\<lparr>Template_Spec :=
                    \<lparr>spec_Containers = maskContainers (spec_Containers (Template_Spec w)),
                     InitContainers = maskContainers (InitContainers (Template_Spec w))\<rparr>\<rparr>))"
  by (simp add: GetStatefulSet_def maskPodSpec_def deref_def assign_def Let_def)

text \<open>
  C1. The list operations do not mask. \<^verbatim>\<open>GetDeployments\<close> on a list of one object
  whose container carries a password in its environment and in its arguments returns
  that list unchanged, password included, because \<^verbatim>\<open>maskPodSpec\<close> is applied to the loop
  variable, a copy of the element; \<^verbatim>\<open>GetStatefulSet\<close>, which holds a pointer to the
  object, returns the same object with both values replaced by \<^verbatim>\<open>**MASKED**\<close>.
\<close>

theorem GetDeployments_returns_secrets:
  "GetDeployments (Inr (Some [secret_workload])) = Inr (Some [secret_workload]) \<and>
   map env_Value (Env (hd (spec_Containers (Template_Spec secret_workload)))) = [''hunter2''] \<and>
   Args (hd (spec_Containers (Template_Spec secret_workload))) = [''--password=hunter2''] \<and>
   GetStatefulSet (Inr (Some secret_workload)) =
     Inr (Some (secret_workload\<lparr>Template_Spec :=
       \<lparr>spec_Containers =
          [\<lparr>kc_Name = ''db'', Image = ''postgres:11'', Command = [''postgres''],
            Args = [''**MASKED**''],
            Env = [\<lparr>env_Name = ''PGPASSWORD'', env_Value = ''**MASKED**''\<rparr>]\<rparr>],
        InitContainers = []\<rparr>\<rparr>))"
  by (simp add: GetDeployments_def list_and_mask_def range_Items_def range_body_def maskPodSpec_def
      deref_def assign_def GetStatefulSet_def secret_workload_def maskContainers_def maskEnvVars_def
      maskArgs_def maskedValue_def Let_def)

text \<open>
  C10, as the claim states it, fails: a call that names neither containers nor replicas
  is turned down before the stateful set is looked at, with \<^verbatim>\<open>skipped\<close> false.
\<close>

theorem SetResources_nothing_to_change_not_skipped:
  "SetResources on_delete_platform ''StatefulSet'' ''db'' ''default''
     \<lparr>Replicas = None, tr_Containers = []\<rparr> = Return (False, Some NothingToChange, [])"
  by (simp add: SetResources_def)

text \<open>
  C10, amended. For a call with kind \<^verbatim>\<open>StatefulSet\<close> (in any letter case) that names at
  least one container or a replica count, and a stateful set whose fetch succeeds with
  more than one replica: if its update strategy is not \<^verbatim>\<open>RollingUpdate\<close>, or the
  partition of its rolling update is set and not zero, the call returns \<^verbatim>\<open>skipped\<close>
  true with a reason and sends no patch request.
\<close>

theorem SetResources_statefulSet_guard:
  assumes "strings_ToLower kind = ''statefulset''"
    and "tr_Containers totalResources \<noteq> [] \<or> Replicas totalResources \<noteq> None"
    and "Get_StatefulSet platform namespace name = Inr (Some statefulSet)"
    and "Spec_Replicas statefulSet = Some replicas"
    and "1 <s replicas"
    and "UpdateStrategy_Type statefulSet \<noteq> RollingUpdateStatefulSetStrategyType \<or>
         (\<exists>p. UpdateStrategy_RollingUpdate statefulSet = Some (Some p) \<and> p \<noteq> 0)"
  shows "\<exists>reason. SetResources platform kind name namespace totalResources
                     = Return (True, Some reason, [])"
  using assms
  by (auto simp add: SetResources_def statefulSet_guard_def GetStatefulSet_masks)

theorem SetResources_statefulSet_guard_witness:
  "strings_ToLower ''StatefulSet'' = ''statefulset'' \<and>
   Spec_Replicas secret_workload = Some 3 \<and> (1::int32) <s 3 \<and>
   UpdateStrategy_Type secret_workload \<noteq> RollingUpdateStatefulSetStrategyType \<and>
   (\<exists>reason. SetResources on_delete_platform ''StatefulSet'' ''db'' ''default''
               \<lparr>Replicas = Some 3, tr_Containers = []\<rparr> = Return (True, Some reason, []))"
proof -
  have a: "strings_ToLower ''StatefulSet'' = ''statefulset''"
    by (simp add: strings_ToLower_def)
  have b: "tr_Containers \<lparr>Replicas = Some 3, tr_Containers = []\<rparr> \<noteq> [] \<or>
           Replicas \<lparr>Replicas = Some (3::int), tr_Containers = []\<rparr> \<noteq> None"
    by simp
  have c: "Get_StatefulSet on_delete_platform ''default'' ''db'' = Inr (Some secret_workload)"
    by (simp add: on_delete_platform_def)
  have d: "Spec_Replicas secret_workload = Some 3"
    by (simp add: secret_workload_def)
  have e: "(1::int32) <s 3"
    by (simp add: word_sless_alt)
  have f: "UpdateStrategy_Type secret_workload \<noteq> RollingUpdateStatefulSetStrategyType \<or>
         (\<exists>p. UpdateStrategy_RollingUpdate secret_workload = Some (Some p) \<and> p \<noteq> 0)"
    by (simp add: secret_workload_def RollingUpdateStatefulSetStrategyType_def)
  have g: "UpdateStrategy_Type secret_workload \<noteq> RollingUpdateStatefulSetStrategyType"
    by (simp add: secret_workload_def RollingUpdateStatefulSetStrategyType_def)
  show ?thesis
    using SetResources_statefulSet_guard [OF a b c d e f] a d e g by simp
qed

section \<open>Properties of the scrape cycle\<close>

text \<open>Every step of a cycle only appends to the batch.\<close>

lemma appends_same: "metrics st' = metrics st \<Longrightarrow> appends R st st'"
  by (simp add: appends_def)

lemma appends_trans: "appends R st st' \<Longrightarrow> appends R st' st'' \<Longrightarrow> appends R st st''"
  by (fastforce simp add: appends_def)

lemma appends_mono:
  "appends R st st' \<Longrightarrow> (\<And>typ n a s c. R typ n a s c \<Longrightarrow> R' typ n a s c) \<Longrightarrow> appends R' st st'"
  by (fastforce simp add: appends_def)

lemma appends_prefix: "appends R st st' \<Longrightarrow> prefix (metrics st) (metrics st')"
  by (auto simp add: appends_def)

lemma appends_fold:
  "(\<And>x st. x \<in> set xs \<Longrightarrow> appends R st (f x st)) \<Longrightarrow> appends R st (fold f xs st)"
proof (induction xs arbitrary: st)
  case Nil
  then show ?case by (simp add: appends_same)
next
  case (Cons x xs)
  have "appends R st (f x st)"
    using Cons.prems by simp
  moreover have "appends R (f x st) (fold f xs (f x st))"
    using Cons.IH Cons.prems by simp
  ultimately show ?case
    using appends_trans by fastforce
qed

lemma addMetricValue_appends:
  "R typ n a s c \<Longrightarrow> appends R st (addMetricValue tickTime typ name n a s c pod t v st)"
  by (simp add: appends_def addMetricValue_def Let_def)

lemma addMetricValueWithTags_appends:
  "R typ n a s c \<Longrightarrow> appends R st (addMetricValueWithTags typ name n a s c pod t v tags st)"
  by (simp add: appends_def addMetricValueWithTags_def)

lemma addMetricValueRate_appends:
  "R typ n a s c \<Longrightarrow>
     appends R st (addMetricValueRate tickTime typ parentKey entityKey name n a s c pod t v mul st)"
  by (simp add: appends_def addMetricValueRate_def addMetricValue_def updatePreviousValue_def Let_def
      split: sum.splits)

lemma emit_node_summary_appends:
  assumes "R TypeNode (node_ID node) uuid_Nil uuid_Nil uuid_Nil"
  shows "appends R st (emit_node_summary env tickTime node summary st)"
  unfolding emit_node_summary_def Let_def
  by (rule appends_trans [OF appends_fold appends_fold])
     (auto intro: addMetricValue_appends addMetricValueRate_appends assms)

lemma emit_pod_network_appends:
  assumes "R TypePod (node_ID node) a s uuid_Nil"
  shows "appends R st (emit_pod_network tickTime node a s pod st)"
  unfolding emit_pod_network_def Let_def
  by (rule appends_trans [OF appends_fold appends_fold])
     (auto intro: addMetricValue_appends addMetricValueRate_appends assms)


lemma throttle_fold:
  assumes "\<And>x th st. x \<in> set xs \<Longrightarrow> throttle_within R n th \<Longrightarrow>
             throttle_within R n (fst (g x (th, st))) \<and> appends R st (snd (g x (th, st)))"
    and "throttle_within R n th"
  shows "throttle_within R n (fst (fold g xs (th, st))) \<and> appends R st (snd (fold g xs (th, st)))"
  using assms
proof (induction xs arbitrary: th st)
  case Nil
  then show ?case by (simp add: appends_same)
next
  case (Cons x xs)
  obtain th1 st1 where g: "g x (th, st) = (th1, st1)"
    by force
  have one: "throttle_within R n th1 \<and> appends R st st1"
    using Cons.prems(1) [of x th st] Cons.prems(2) g by simp
  have rest: "throttle_within R n (fst (fold g xs (th1, st1))) \<and>
              appends R st1 (snd (fold g xs (th1, st1)))"
    using Cons.IH [of th1 st1] Cons.prems(1) one by simp
  show ?case
    using one rest g appends_trans by fastforce
qed

lemma throttle_within_update:
  assumes "throttle_within R n th"
    and "\<forall>(name, sm) \<in> set stored.
           R TypePodContainer n (cms_ApplicationID sm) (cms_ServiceID sm) (cms_ContainerID sm)"
  shows "throttle_within R n (AList.update k stored th)"
  using assms
  by (induction th) (auto simp add: throttle_within_def)

lemma emit_container_inv:
  assumes "\<And>a s ic. FindContainer scanner (PodRef_Namespace pod) (PodRef_Name pod) (ksc_Name container)
                        = Some (a, s, ic) \<Longrightarrow> R TypePodContainer (node_ID node) a s (container_ID ic)"
    and "throttle_within R (node_ID node) th"
  shows "throttle_within R (node_ID node) (fst (emit_container scanner tickTime node pod container (th, st))) \<and>
         appends R st (snd (emit_container scanner tickTime node pod container (th, st)))"
proof (cases "FindContainer scanner (PodRef_Namespace pod) (PodRef_Name pod) (ksc_Name container)")
  case None
  then show ?thesis
    using assms(2) by (simp add: emit_container_def appends_same)
next
  case (Some r)
  obtain a s ic where r: "r = (a, s, ic)"
    by (cases r) auto
  have R: "R TypePodContainer (node_ID node) a s (container_ID ic)"
    using assms(1) Some r by simp
  let ?st1 = "fold (\<lambda>(name, t, v).
                 addMetricValue tickTime TypePodContainer name (node_ID node) a s (container_ID ic)
                   (PodRef_Name pod) t v) (container_absolutes container ic) st"
  have s1: "appends R st ?st1"
    by (rule appends_fold) (auto intro: addMetricValue_appends R)
  have s2: "appends R ?st1 (addMetricValueRate tickTime TypePodContainer
                          (PodRef_Namespace pod @ '':'' @ PodRef_Name pod) (ksc_Name container)
                          ''cpu/usage_rate'' (node_ID node) a s (container_ID ic) (PodRef_Name pod)
                          (CPU_Time container) (CPU_UsageCoreNanoSeconds container) 1000 ?st1)"
    by (rule addMetricValueRate_appends) (rule R)
  have th: "throttle_within R (node_ID node)
              (AList.update (container_ID ic)
                 (AList.update ''container_cpu_cfs_throttled/periods_total''
                     (defaultMetricStore a s ic (PodRef_Namespace pod) (PodRef_Name pod) container)
                   (AList.update ''container_cpu_cfs_throttled/seconds_total''
                       (defaultMetricStore a s ic (PodRef_Namespace pod) (PodRef_Name pod) container)
                     (AList.update ''container_cpu_cfs/periods_total''
                         (defaultMetricStore a s ic (PodRef_Namespace pod) (PodRef_Name pod) container)
                        []))) th)"
    by (rule throttle_within_update [OF assms(2)]) (simp add: defaultMetricStore_def R)
  show ?thesis
    using Some r th appends_trans [OF s1 s2] by (simp add: emit_container_def Let_def)
qed

lemma emit_pod_inv:
  assumes "\<And>a s. FindService scanner (PodRef_Namespace pod) (PodRef_Name pod) = Some (a, s)
                    \<Longrightarrow> R TypePod (node_ID node) a s uuid_Nil"
    and "\<And>name a s ic. FindContainer scanner (PodRef_Namespace pod) (PodRef_Name pod) name
                        = Some (a, s, ic) \<Longrightarrow> R TypePodContainer (node_ID node) a s (container_ID ic)"
    and "throttle_within R (node_ID node) th"
  shows "throttle_within R (node_ID node) (fst (emit_pod scanner tickTime node pod (th, st))) \<and>
         appends R st (snd (emit_pod scanner tickTime node pod (th, st)))"
proof (cases "FindService scanner (PodRef_Namespace pod) (PodRef_Name pod)")
  case None
  then show ?thesis
    using assms(3) by (simp add: emit_pod_def appends_same)
next
  case (Some r)
  obtain a s where r: "r = (a, s)"
    by (cases r) auto
  let ?st1 = "emit_pod_network tickTime node a s pod st"
  let ?g = "\<lambda>(name, container). emit_container scanner tickTime node pod container"
  have s1: "appends R st ?st1"
    using assms(1) Some r by (simp add: emit_pod_network_appends)
  have s2: "throttle_within R (node_ID node) (fst (fold ?g (podContainers_of pod) (th, ?st1))) \<and>
            appends R ?st1 (snd (fold ?g (podContainers_of pod) (th, ?st1)))"
  proof (rule throttle_fold [OF _ assms(3)])
    fix x th' st'
    assume "throttle_within R (node_ID node) th'"
    then show "throttle_within R (node_ID node) (fst (?g x (th', st'))) \<and>
               appends R st' (snd (?g x (th', st')))"
      using emit_container_inv [of scanner pod "snd x" R node th' tickTime st'] assms(2)
      by (cases x) simp
  qed
  show ?thesis
    using Some r s2 appends_trans [OF s1] by (simp add: emit_pod_def Let_def)
qed

lemma withBackoff_loop_metrics:
  assumes "\<forall>s. metrics (snd (fn s)) = metrics s"
  shows "metrics (snd (withBackoff_loop kubelet fn t st)) = metrics st"
  using assms
proof (induction kubelet fn t st rule: withBackoff_loop.induct)
  case (1 kubelet fn t st)
  obtain r st1 where f: "fn st = (r, st1)"
    by force
  have m: "metrics st1 = metrics st"
    using "1.prems" f by (metis snd_conv)
  show ?case
  proof (cases r)
    case None
    then show ?thesis
      using f m by (simp add: withBackoff_loop.simps [of kubelet fn t st])
  next
    case (Some e)
    show ?thesis
    proof (cases "backoff_maxRetries kubelet < t + 1")
      case True
      then show ?thesis
        using f m Some by (simp add: withBackoff_loop.simps [of kubelet fn t st])
    next
      case False
      then show ?thesis
        using "1.IH" [OF refl f [symmetric] Some False refl "1.prems"] f m Some
        by (simp add: withBackoff_loop.simps [of kubelet fn t st])
    qed
  qed
qed

lemma withBackoff_metrics:
  "\<forall>s. metrics (snd (fn s)) = metrics s \<Longrightarrow> metrics (snd (withBackoff kubelet fn st)) = metrics st"
  using withBackoff_loop_metrics [of fn kubelet 0 st]
  by (cases "withBackoff_loop kubelet fn 0 st") (auto simp add: withBackoff_def)

lemma getSummary_metrics: "metrics (snd (getSummary env node s)) = metrics s"
proof -
  obtain bytes err where g: "GetBytes env node ''stats/summary'' (requests s) = (bytes, err)"
    by force
  show ?thesis
    using g by (cases err) (simp_all add: getSummary_def Let_def)
qed

lemma getCadvisor_metrics: "metrics (snd (getCadvisor env node s)) = metrics s"
proof -
  obtain bytes err where g: "GetBytes env node ''metrics/cadvisor'' (requests s) = (bytes, err)"
    by force
  show ?thesis
    using g by (cases err) (simp_all add: getCadvisor_def Let_def)
qed

lemma map_entry_value_within:
  "\<forall>(name, sm) \<in> set stored. P (cms_ApplicationID sm) (cms_ServiceID sm) (cms_ContainerID sm) \<Longrightarrow>
   \<forall>(name, sm) \<in> set (AList.map_entry k (\<lambda>sm. sm\<lparr>cms_Value := v\<rparr>) stored).
      P (cms_ApplicationID sm) (cms_ServiceID sm) (cms_ContainerID sm)"
  by (induction stored) auto

lemma throttle_within_map_entry:
  "throttle_within R n th \<Longrightarrow>
   throttle_within R n (AList.map_entry k (AList.map_entry name (\<lambda>sm. sm\<lparr>cms_Value := v\<rparr>)) th)"
proof (induction th)
  case Nil
  then show ?case by simp
next
  case (Cons p th)
  have rest: "throttle_within R n th"
    using Cons.prems by (simp add: throttle_within_def)
  have here: "\<forall>(name, sm) \<in> set (snd p).
                R TypePodContainer n (cms_ApplicationID sm) (cms_ServiceID sm) (cms_ContainerID sm)"
    using Cons.prems by (cases p) (simp add: throttle_within_def)
  show ?case
  proof (cases "fst p = k")
    case True
    then show ?thesis
      using rest map_entry_value_within [OF here, of name v]
      by (simp add: throttle_within_def)
  next
    case False
    then show ?thesis
      using Cons.IH [OF rest] here by (cases p) (simp add: throttle_within_def)
  qed
qed

lemma store_sample_within:
  "throttle_within R n th \<Longrightarrow> throttle_within R n (store_sample env scanner name val th)"
  by (simp add: store_sample_def throttle_within_map_entry split: prod.splits option.splits)

lemma fold_store_sample_within:
  "throttle_within R n th \<Longrightarrow> throttle_within R n (fold (store_sample env scanner name) vals th)"
  by (induction vals arbitrary: th) (simp_all add: store_sample_within)

lemma store_cadvisor_within:
  "throttle_within R n th \<Longrightarrow> throttle_within R n (store_cadvisor env scanner cadvisor th)"
  by (simp add: store_cadvisor_def throttle_refs_def fold_store_sample_within)

lemma emit_stored_appends:
  assumes "R TypePodContainer (node_ID node) (cms_ApplicationID sm) (cms_ServiceID sm)
             (cms_ContainerID sm)"
  shows "appends R st (emit_stored tickTime node summary now (name, sm) st)"
  unfolding emit_stored_def Let_def prod.case
  by (rule appends_trans [OF addMetricValue_appends addMetricValueRate_appends]) (rule assms)+

lemma emit_throttle_appends:
  assumes "throttle_within R (node_ID node) th"
  shows "appends R st (emit_throttle tickTime node summary now th st)"
  unfolding emit_throttle_def
proof (rule appends_fold)
  fix x st'
  assume x: "x \<in> set th"
  obtain cid stored where p: "x = (cid, stored)"
    by force
  have all: "\<forall>(name, sm) \<in> set stored.
               R TypePodContainer (node_ID node) (cms_ApplicationID sm) (cms_ServiceID sm)
                 (cms_ContainerID sm)"
    using assms x p by (auto simp add: throttle_within_def)
  have "appends R st' (fold (emit_stored tickTime node summary now) stored st')"
  proof (rule appends_fold)
    fix y st''
    assume y: "y \<in> set stored"
    obtain name sm where q: "y = (name, sm)"
      by force
    have "R TypePodContainer (node_ID node) (cms_ApplicationID sm) (cms_ServiceID sm)
            (cms_ContainerID sm)"
      using all y q by fastforce
    then show "appends R st'' (emit_stored tickTime node summary now y st'')"
      unfolding q by (rule emit_stored_appends)
  qed
  then show "appends R st'
               ((case x of (containerID, storedMetrics) \<Rightarrow>
                   fold (emit_stored tickTime node summary now) storedMetrics) st')"
    using p by simp
qed

lemma scrape_cadvisor_appends:
  assumes "throttle_within R (node_ID node) th"
  shows "appends R st (snd (scrape_cadvisor env kubelet scanner tickTime node summary th st))"
proof -
  obtain r st1 where w: "withBackoff kubelet (getCadvisor env node) st = (r, st1)"
    by force
  have m: "metrics st1 = metrics st"
    using withBackoff_metrics [of "getCadvisor env node" kubelet st] w
    by (simp add: getCadvisor_metrics)
  have e: "\<And>cadvisor. appends R st1
             (emit_throttle tickTime node summary (Now_task env node)
                (store_cadvisor env scanner cadvisor th) st1)"
    by (rule emit_throttle_appends) (rule store_cadvisor_within [OF assms])
  have "appends R st1 (snd (scrape_cadvisor env kubelet scanner tickTime node summary th st))"
  proof (cases r)
    case (Some err)
    then show ?thesis
      using w by (simp add: scrape_cadvisor_def appends_same)
  next
    case None
    show ?thesis
    proof (cases "decodeCAdvisorResponse env (cadvisorResponse st1)")
      case (Inl msg)
      then show ?thesis
        using w None by (simp add: scrape_cadvisor_def appends_same)
    next
      case (Inr cadvisor)
      then show ?thesis
        using w None e [of cadvisor] by (simp add: scrape_cadvisor_def Let_def)
    qed
  qed
  then show ?thesis
    using appends_trans [OF appends_same [OF m]] by blast
qed

lemma node_task_appends:
  assumes "R TypeNode (node_ID node) uuid_Nil uuid_Nil uuid_Nil"
    and "\<And>namespace pod a s. FindService scanner namespace pod = Some (a, s)
            \<Longrightarrow> R TypePod (node_ID node) a s uuid_Nil"
    and "\<And>namespace pod name a s ic. FindContainer scanner namespace pod name = Some (a, s, ic)
            \<Longrightarrow> R TypePodContainer (node_ID node) a s (container_ID ic)"
  shows "appends R st (snd (node_task env kubelet scanner tickTime node st))"
proof -
  obtain r st1 where w: "withBackoff kubelet (getSummary env node) st = (r, st1)"
    by force
  have m: "metrics st1 = metrics st"
    using withBackoff_metrics [of "getSummary env node" kubelet st] w
    by (simp add: getSummary_metrics)
  have p: "\<And>st'. appends R st' (snd (process_summary env kubelet scanner tickTime node st'))"
  proof -
    fix st'
    let ?st1 = "(if optInAnalysisData kubelet
                 then (case Unmarshal_interface env (summaryBytes st') of
                         Inl msg \<Rightarrow> st'
                       | Inr summaryInterface \<Rightarrow>
                           if summaryInterface \<noteq> JNull
                           then addRawResponse env (node_ID node) summaryInterface st'
                           else st')
                 else st')"
    have m1: "metrics ?st1 = metrics st'"
      by (simp add: addRawResponse_def split: sum.splits)
    have "appends R ?st1 (snd (process_summary env kubelet scanner tickTime node st'))"
    proof (cases "Unmarshal_summary env (summaryBytes ?st1)")
      case (Inl msg)
      then show ?thesis
        by (simp add: process_summary_def Let_def appends_same)
    next
      case (Inr summary)
      let ?st2 = "emit_node_summary env tickTime node summary ?st1"
      obtain th st3 where f: "fold (emit_pod scanner tickTime node) (Pods summary) ([], ?st2) = (th, st3)"
        by force
      have s2: "appends R ?st1 ?st2"
        by (rule emit_node_summary_appends) (rule assms(1))
      have "throttle_within R (node_ID node)
              (fst (fold (emit_pod scanner tickTime node) (Pods summary) ([], ?st2))) \<and>
            appends R ?st2 (snd (fold (emit_pod scanner tickTime node) (Pods summary) ([], ?st2)))"
      proof (rule throttle_fold)
        show "throttle_within R (node_ID node) []"
          by (simp add: throttle_within_def)
      next
        fix x th' st''
        assume "throttle_within R (node_ID node) th'"
        then show "throttle_within R (node_ID node) (fst (emit_pod scanner tickTime node x (th', st''))) \<and>
                   appends R st'' (snd (emit_pod scanner tickTime node x (th', st'')))"
          using emit_pod_inv [of scanner x R node th' tickTime st''] assms(2,3) by blast
      qed
      then have s3: "throttle_within R (node_ID node) th" "appends R ?st2 st3"
        using f by simp_all
      have s4: "appends R st3
                  (snd (scrape_cadvisor env kubelet scanner tickTime node summary th st3))"
        by (rule scrape_cadvisor_appends [OF s3(1)])
      have "snd (process_summary env kubelet scanner tickTime node st') =
              snd (scrape_cadvisor env kubelet scanner tickTime node summary th st3)"
        using Inr f by (simp add: process_summary_def Let_def)
      then show ?thesis
        using appends_trans [OF s2 appends_trans [OF s3(2) s4]] by simp
    qed
    then show "appends R st' (snd (process_summary env kubelet scanner tickTime node st'))"
      using appends_trans [OF appends_same [OF m1]] by blast
  qed
  have "appends R st1 (snd (node_task env kubelet scanner tickTime node st))"
    using w p [of st1] by (cases r) (simp_all add: node_task_def appends_same)
  then show ?thesis
    using appends_trans [OF appends_same [OF m]] by blast
qed

lemma Do_appends:
  assumes "\<And>node st. node \<in> set nodes \<Longrightarrow> appends R st (snd (task node st))"
  shows "appends R st (snd (Do task nodes st))"
  using assms
proof (induction nodes arbitrary: st)
  case Nil
  then show ?case by (simp add: appends_same)
next
  case (Cons node nodes)
  obtain err st1 where t: "task node st = (err, st1)"
    by force
  obtain errs st2 where d: "Do task nodes st1 = (errs, st2)"
    by force
  have "appends R st st1"
    using Cons.prems [of node st] t by simp
  moreover have "appends R st1 st2"
    using Cons.IH [of st1] Cons.prems d by simp
  ultimately show ?case
    using t d appends_trans by fastforce
qed

lemma emit_cluster_appends:
  assumes "R TypeCluster uuid_Nil uuid_Nil uuid_Nil uuid_Nil"
  shows "appends R st (emit_cluster scanner tickTime st)"
  unfolding emit_cluster_def Let_def
  by (rule appends_trans [OF addMetricValue_appends appends_fold])
     (auto intro: addMetricValueWithTags_appends assms)

lemma emit_capacities_appends:
  assumes "\<And>node. node \<in> set (GetNodes scanner) \<Longrightarrow> R TypeNode (node_ID node) uuid_Nil uuid_Nil uuid_Nil"
  shows "appends R st (emit_capacities scanner tickTime st)"
  unfolding emit_capacities_def
  by (rule appends_fold, rule appends_fold) (auto intro: addMetricValue_appends assms)

lemma emit_spec_appends:
  assumes "\<And>app service container. app \<in> set (GetApplications scanner) \<Longrightarrow>
             service \<in> set (Services app) \<Longrightarrow> container \<in> set (service_Containers service) \<Longrightarrow>
             R TypePodContainer uuid_Nil (application_ID app) (service_ID service) (container_ID container)"
  shows "appends R st (emit_spec scanner tickTime st)"
  unfolding emit_spec_def
  by (rule appends_fold, rule appends_fold, rule appends_fold, rule appends_fold)
     (auto intro: addMetricValue_appends assms)

lemma appender_fold: "(\<And>x. x \<in> set xs \<Longrightarrow> appender (f x)) \<Longrightarrow> appender (fold f xs)"
proof (induction xs)
  case Nil
  show ?case
    unfolding appender_def by (simp add: NewKubelet_state_def)
next
  case (Cons x xs)
  have "appender (f x)"
    by (rule Cons.prems) simp
  then have a: "\<And>s. metrics (f x s) = metrics s @ metrics (f x NewKubelet_state)"
    unfolding appender_def by blast
  have "appender (fold f xs)"
    using Cons by simp
  then have b: "\<And>s. metrics (fold f xs s) = metrics s @ metrics (fold f xs NewKubelet_state)"
    unfolding appender_def by blast
  show ?case
    unfolding appender_def
  proof
    fix st
    show "metrics (fold f (x # xs) st) = metrics st @ metrics (fold f (x # xs) NewKubelet_state)"
      by (simp only: fold_Cons comp_apply b [of "f x st"] b [of "f x NewKubelet_state"] a [of st]
          append_assoc)
  qed
qed

lemma addMetricValue_appender: "appender (addMetricValue tickTime typ name n a s c pod t v)"
  unfolding appender_def by (simp add: addMetricValue_def NewKubelet_state_def Let_def)

lemma emit_spec_records:
  "metrics (emit_spec scanner tickTime st) = metrics st @ spec_records scanner tickTime"
proof -
  have "appender (emit_spec scanner tickTime)"
    unfolding emit_spec_def
    by (rule appender_fold, rule appender_fold, rule appender_fold, rule appender_fold)
       (auto intro: addMetricValue_appender)
  then show ?thesis
    unfolding appender_def spec_records_def by blast
qed

lemma cycle_decomposition:
  assumes "NewConcurrentProcessor_err env = None"
    and "Rc TypeCluster uuid_Nil uuid_Nil uuid_Nil uuid_Nil"
    and "\<And>node. node \<in> set (GetNodes scanner) \<Longrightarrow> Rn TypeNode (node_ID node) uuid_Nil uuid_Nil uuid_Nil"
    and "\<And>node. node \<in> set (GetNodes scanner) \<Longrightarrow> Rt TypeNode (node_ID node) uuid_Nil uuid_Nil uuid_Nil"
    and "\<And>node namespace pod a s. node \<in> set (GetNodes scanner) \<Longrightarrow>
            FindService scanner namespace pod = Some (a, s) \<Longrightarrow> Rt TypePod (node_ID node) a s uuid_Nil"
    and "\<And>node namespace pod name a s ic. node \<in> set (GetNodes scanner) \<Longrightarrow>
            FindContainer scanner namespace pod name = Some (a, s, ic) \<Longrightarrow>
            Rt TypePodContainer (node_ID node) a s (container_ID ic)"
  shows "\<exists>A B D. batch_of (GetMetrics env kubelet scanner tickTime st0)
                   = A @ B @ spec_records scanner tickTime @ D \<and>
           (\<forall>m \<in> set A. Rc (Type m) (Node m) (Application m) (Service m) (Container m)) \<and>
           (\<forall>m \<in> set B. Rn (Type m) (Node m) (Application m) (Service m) (Container m)) \<and>
           (\<forall>m \<in> set D. Rt (Type m) (Node m) (Application m) (Service m) (Container m))"
proof -
  let ?st = "(collectGarbage env st0)\<lparr>metrics := [], rawResponses := []\<rparr>"
  let ?st1 = "emit_cluster scanner tickTime ?st"
  let ?st2 = "emit_capacities scanner tickTime ?st1"
  let ?st3 = "emit_spec scanner tickTime ?st2"
  let ?task = "node_task env kubelet scanner tickTime"
  obtain errs st4 where d: "Do ?task (GetNodes scanner) ?st3 = (errs, st4)"
    by force
  have batch: "batch_of (GetMetrics env kubelet scanner tickTime st0) = metrics st4"
    using assms(1) d by (simp add: GetMetrics_def Let_def)
  have "appends Rc ?st ?st1"
    by (rule emit_cluster_appends) (rule assms(2))
  then obtain A where A: "metrics ?st1 = A"
      "\<forall>m \<in> set A. Rc (Type m) (Node m) (Application m) (Service m) (Container m)"
    by (auto simp add: appends_def)
  have "appends Rn ?st1 ?st2"
    by (rule emit_capacities_appends) (rule assms(3))
  then obtain B where B: "metrics ?st2 = A @ B"
      "\<forall>m \<in> set B. Rn (Type m) (Node m) (Application m) (Service m) (Container m)"
    using A(1) by (auto simp add: appends_def)
  have S: "metrics ?st3 = A @ B @ spec_records scanner tickTime"
    using B(1) by (simp add: emit_spec_records)
  have "appends Rt ?st3 (snd (Do ?task (GetNodes scanner) ?st3))"
  proof (rule Do_appends)
    fix node st
    assume n: "node \<in> set (GetNodes scanner)"
    show "appends Rt st (snd (?task node st))"
    proof (rule node_task_appends)
      show "Rt TypeNode (node_ID node) uuid_Nil uuid_Nil uuid_Nil"
        by (rule assms(4) [OF n])
    next
      fix namespace pod a s
      assume "FindService scanner namespace pod = Some (a, s)"
      then show "Rt TypePod (node_ID node) a s uuid_Nil"
        by (rule assms(5) [OF n])
    next
      fix namespace pod name a s ic
      assume "FindContainer scanner namespace pod name = Some (a, s, ic)"
      then show "Rt TypePodContainer (node_ID node) a s (container_ID ic)"
        by (rule assms(6) [OF n])
    qed
  qed
  then obtain D where D: "metrics st4 = metrics ?st3 @ D"
      "\<forall>m \<in> set D. Rt (Type m) (Node m) (Application m) (Service m) (Container m)"
    using d by (auto simp add: appends_def)
  show ?thesis
    using batch A(2) B(2) S D by auto
qed

lemma spec_records_ids:
  assumes "scanner_ids_set scanner"
  shows "\<forall>m \<in> set (spec_records scanner tickTime).
           Type m = TypePodContainer \<and> Node m = uuid_Nil \<and> Application m \<noteq> uuid_Nil \<and>
           Service m \<noteq> uuid_Nil \<and> Container m \<noteq> uuid_Nil"
proof -
  let ?R = "\<lambda>typ n a s c. typ = TypePodContainer \<and> n = uuid_Nil \<and> a \<noteq> uuid_Nil \<and>
              s \<noteq> uuid_Nil \<and> c \<noteq> uuid_Nil"
  have "appends ?R NewKubelet_state (emit_spec scanner tickTime NewKubelet_state)"
    by (rule emit_spec_appends) (use assms in \<open>auto simp add: scanner_ids_set_def\<close>)
  then show ?thesis
    by (auto simp add: appends_def spec_records_def NewKubelet_state_def)
qed

lemmas type_defs = TypeCluster_def TypeNode_def TypePod_def TypePodContainer_def

lemma cluster_ids_by_scope:
  assumes "Type m = TypeCluster \<and> Node m = uuid_Nil \<and> Application m = uuid_Nil \<and>
           Service m = uuid_Nil \<and> Container m = uuid_Nil"
  shows "ids_by_scope m \<and> Type m \<noteq> TypePodContainer"
  using assms unfolding ids_by_scope_def type_defs by (elim conjE) simp_all

lemma capacity_ids_by_scope:
  assumes "Type m = TypeNode \<and> Node m \<noteq> uuid_Nil \<and> Application m = uuid_Nil \<and>
           Service m = uuid_Nil \<and> Container m = uuid_Nil"
  shows "ids_by_scope m \<and> Type m \<noteq> TypePodContainer"
  using assms unfolding ids_by_scope_def type_defs by (elim conjE) simp_all

lemma spec_ids_by_scope:
  assumes "Type m = TypePodContainer \<and> Node m = uuid_Nil \<and> Application m \<noteq> uuid_Nil \<and>
           Service m \<noteq> uuid_Nil \<and> Container m \<noteq> uuid_Nil"
  shows "ids_by_scope m \<and> Node m = uuid_Nil"
  using assms unfolding ids_by_scope_def type_defs by (elim conjE) simp_all

lemma node_task_ids_by_scope:
  assumes "node_task_ids (Type m) (Node m) (Application m) (Service m) (Container m)"
  shows "ids_by_scope m \<and> Node m \<noteq> uuid_Nil"
proof -
  have n: "Node m \<noteq> uuid_Nil"
    using assms by (simp add: node_task_ids_def)
  have "ids_by_scope m"
    using assms unfolding node_task_ids_def ids_by_scope_def type_defs
    by (elim conjE disjE) simp_all
  then show ?thesis
    using n by simp
qed

lemmas cycle_eval = GetMetrics_def unreachable_kubelet_def old_kubelet_def default_kubelet_def
  one_node_scanner_def NewKubelet_state_def collectGarbage_def emit_cluster_def emit_capacities_def
  emit_spec_def node_task_def withBackoff_def withBackoff_loop.simps getSummary_def
  resource_not_found_def addMetricValue_def addMetricValueWithTags_def count_instanceGroup_def
  instanceGroup_of_def node_capacities_def container_spec_def node_n1_def web_container_def Let_def
  signed_modulo_int_def time_zero_def TypeCluster_def TypeNode_def TypePodContainer_def uuid_Nil_def

lemma one_node_scanner_ids_set: "scanner_ids_set one_node_scanner"
  by (simp add: scanner_ids_set_def one_node_scanner_def node_n1_def web_container_def uuid_Nil_def)

text \<open>
  C2, as the claim states it, fails: in a cycle over a snapshot whose identifiers are all
  set, the record \<^verbatim>\<open>cpu/request\<close> that is emitted from the snapshot for a container has
  type \<^verbatim>\<open>TypePodContainer\<close> and the nil node identifier.
\<close>

theorem spec_record_names_no_node:
  "scanner_ids_set one_node_scanner \<and>
   batch_of (GetMetrics unreachable_kubelet default_kubelet one_node_scanner 700000 NewKubelet_state) ! 6
     = \<lparr>Name = ''cpu/request'', Type = TypePodContainer, Node = uuid_Nil, Application = 10,
        Service = 20, Container = 30, Timestamp = 600000, Value = 100, PodName = [],
        AdditionalTags = None\<rparr> \<and>
   \<not> ids_required_by_type
       \<lparr>Name = ''cpu/request'', Type = TypePodContainer, Node = uuid_Nil, Application = 10,
        Service = 20, Container = 30, Timestamp = 600000, Value = 100, PodName = [],
        AdditionalTags = None\<rparr>"
proof -
  have "batch_of (GetMetrics unreachable_kubelet default_kubelet one_node_scanner 700000 NewKubelet_state) ! 6
     = \<lparr>Name = ''cpu/request'', Type = TypePodContainer, Node = uuid_Nil, Application = 10,
        Service = 20, Container = 30, Timestamp = 600000, Value = 100, PodName = [],
        AdditionalTags = None\<rparr>"
    by (simp add: cycle_eval)
  moreover have "\<not> ids_required_by_type
       \<lparr>Name = ''cpu/request'', Type = TypePodContainer, Node = uuid_Nil, Application = 10,
        Service = 20, Container = 30, Timestamp = 600000, Value = 100, PodName = [],
        AdditionalTags = None\<rparr>"
    by (simp add: ids_required_by_type_def)
  ultimately show ?thesis
    using one_node_scanner_ids_set by simp
qed

text \<open>
  C2, amended. When every identifier the scanner hands out is set, every record of the
  batch carries the identifiers of its type: none for a cluster record; the node alone
  for a node record; node, application and service, and no container, for a pod record;
  application, service and container for a container record. The node of a container
  record is nil exactly when the record is one of the per-container spec records
  emitted from the snapshot.
\<close>

theorem GetMetrics_ids_by_scope:
  assumes "scanner_ids_set scanner"
  shows "\<forall>m \<in> set (batch_of (GetMetrics env kubelet scanner tickTime st0)).
           ids_by_scope m \<and>
           (Type m = TypePodContainer \<longrightarrow>
              (Node m = uuid_Nil \<longleftrightarrow> m \<in> set (spec_records scanner tickTime)))"
proof (cases "NewConcurrentProcessor_err env")
  case (Some err)
  then show ?thesis
    by (simp add: GetMetrics_def Let_def)
next
  case None
  let ?Rc = "\<lambda>typ n a s c. typ = TypeCluster \<and> n = uuid_Nil \<and> a = uuid_Nil \<and> s = uuid_Nil \<and>
               c = uuid_Nil"
  let ?Rn = "\<lambda>typ n a s c. typ = TypeNode \<and> n \<noteq> uuid_Nil \<and> a = uuid_Nil \<and> s = uuid_Nil \<and>
               c = uuid_Nil"
  have ids: "\<And>node. node \<in> set (GetNodes scanner) \<Longrightarrow> node_ID node \<noteq> uuid_Nil"
    and svc: "\<And>namespace pod a s. FindService scanner namespace pod = Some (a, s) \<Longrightarrow>
                a \<noteq> uuid_Nil \<and> s \<noteq> uuid_Nil"
    and ctr: "\<And>namespace pod name a s ic. FindContainer scanner namespace pod name = Some (a, s, ic) \<Longrightarrow>
                a \<noteq> uuid_Nil \<and> s \<noteq> uuid_Nil \<and> container_ID ic \<noteq> uuid_Nil"
    using assms by (simp_all add: scanner_ids_set_def)
  have "\<exists>A B D.
      batch_of (GetMetrics env kubelet scanner tickTime st0) = A @ B @ spec_records scanner tickTime @ D \<and>
      (\<forall>m \<in> set A. ?Rc (Type m) (Node m) (Application m) (Service m) (Container m)) \<and>
      (\<forall>m \<in> set B. ?Rn (Type m) (Node m) (Application m) (Service m) (Container m)) \<and>
      (\<forall>m \<in> set D. node_task_ids (Type m) (Node m) (Application m) (Service m) (Container m))"
  proof -
    have c: "?Rc TypeCluster uuid_Nil uuid_Nil uuid_Nil uuid_Nil"
      by simp
    have n: "\<And>node. node \<in> set (GetNodes scanner) \<Longrightarrow>
               ?Rn TypeNode (node_ID node) uuid_Nil uuid_Nil uuid_Nil"
      using ids by simp
    have t1: "\<And>node. node \<in> set (GetNodes scanner) \<Longrightarrow>
               node_task_ids TypeNode (node_ID node) uuid_Nil uuid_Nil uuid_Nil"
      using ids by (simp add: node_task_ids_def)
    have t2: "\<And>node namespace pod a s. node \<in> set (GetNodes scanner) \<Longrightarrow>
               FindService scanner namespace pod = Some (a, s) \<Longrightarrow>
               node_task_ids TypePod (node_ID node) a s uuid_Nil"
      using ids svc by (simp add: node_task_ids_def)
    have t3: "\<And>node namespace pod name a s ic. node \<in> set (GetNodes scanner) \<Longrightarrow>
               FindContainer scanner namespace pod name = Some (a, s, ic) \<Longrightarrow>
               node_task_ids TypePodContainer (node_ID node) a s (container_ID ic)"
      using ids ctr by (simp add: node_task_ids_def)
    show ?thesis
      by (rule cycle_decomposition
        [where Rc = ?Rc and Rn = ?Rn and Rt = node_task_ids and env = env and scanner = scanner
           and kubelet = kubelet and tickTime = tickTime and ?st0.0 = st0, OF None c n t1 t2 t3])
  qed
  then obtain A B D where dec:
      "batch_of (GetMetrics env kubelet scanner tickTime st0) = A @ B @ spec_records scanner tickTime @ D"
      "\<forall>m \<in> set A. ?Rc (Type m) (Node m) (Application m) (Service m) (Container m)"
      "\<forall>m \<in> set B. ?Rn (Type m) (Node m) (Application m) (Service m) (Container m)"
      "\<forall>m \<in> set D. node_task_ids (Type m) (Node m) (Application m) (Service m) (Container m)"
    by (elim exE conjE)
  note spec = spec_records_ids [OF assms, of tickTime]
  show ?thesis
  proof
    fix m
    assume "m \<in> set (batch_of (GetMetrics env kubelet scanner tickTime st0))"
    then consider "m \<in> set A" | "m \<in> set B" | "m \<in> set (spec_records scanner tickTime)"
      | "m \<in> set D" "m \<notin> set (spec_records scanner tickTime)"
      using dec(1) by auto
    then show "ids_by_scope m \<and>
           (Type m = TypePodContainer \<longrightarrow>
              (Node m = uuid_Nil \<longleftrightarrow> m \<in> set (spec_records scanner tickTime)))"
    proof cases
      case 1
      then show ?thesis
        using cluster_ids_by_scope [of m] dec(2) by blast
    next
      case 2
      then show ?thesis
        using capacity_ids_by_scope [of m] dec(3) by blast
    next
      case 3
      then show ?thesis
        using spec_ids_by_scope [of m] spec by blast
    next
      case 4
      then show ?thesis
        using node_task_ids_by_scope [of m] dec(4) by blast
    qed
  qed
qed

theorem GetMetrics_ids_by_scope_witness:
  "scanner_ids_set one_node_scanner \<and>
   list_all ids_by_scope
     (batch_of (GetMetrics unreachable_kubelet default_kubelet one_node_scanner 700000
                  NewKubelet_state))"
  using GetMetrics_ids_by_scope [OF one_node_scanner_ids_set, of unreachable_kubelet default_kubelet
      700000 NewKubelet_state] one_node_scanner_ids_set
  by (simp add: list_all_iff)

lemma Do_state: "snd (Do task nodes st) = fold (\<lambda>node s. snd (task node s)) nodes st"
proof (induction nodes arbitrary: st)
  case Nil
  then show ?case by simp
next
  case (Cons node nodes)
  obtain err st1 where t: "task node st = (err, st1)"
    by force
  obtain errs st2 where d: "Do task nodes st1 = (errs, st2)"
    by force
  show ?case
    using Cons.IH [of st1] t d by simp
qed

lemma first_node_fails:
  "node_task first_unreachable default_kubelet two_node_scanner 700000 node_n1 s =
     (Some (MaxRetriesExceeded (UnableToGetSummary (ClientError ''connection refused''))),
      s\<lparr>summaryBytes := [], requests := Suc (Suc (Suc (Suc (Suc (Suc (requests s)))))),
         slept := slept s @ [300000000, 600000000, 900000000, 1200000000, 1500000000]\<rparr>)"
  by (simp add: node_task_def withBackoff_def withBackoff_loop.simps getSummary_def
      first_unreachable_def old_kubelet_def default_kubelet_def node_n1_def resource_not_found_def
      Let_def signed_modulo_int_def)

lemma second_node_records:
  assumes "previous s = Map.empty"
  shows "map (\<lambda>m. (Name m, Node m))
           (metrics (snd (node_task first_unreachable default_kubelet two_node_scanner 700000 node_n2 s)))
         = map (\<lambda>m. (Name m, Node m)) (metrics s) @
           [(''cpu/usage'', 2), (''memory/rss'', 2), (''filesystem/usage'', 2),
            (''filesystem/node_capacity'', 2), (''filesystem/node_allocatable'', 2),
            (''network/tx'', 2), (''network/rx'', 2), (''network/tx_errors'', 2),
            (''network/rx_errors'', 2)]"
  using assms
  by (simp add: node_task_def withBackoff_def withBackoff_loop.simps getSummary_def getCadvisor_def
      first_unreachable_def old_kubelet_def default_kubelet_def node_n2_def resource_not_found_def
      Let_def two_node_scanner_def one_node_scanner_def process_summary_def zero_KubeletSummary_def
      emit_node_summary_def node_absolutes_def node_rates_def scrape_cadvisor_def store_cadvisor_def
      throttle_refs_def emit_throttle_def addMetricValue_def addMetricValueRate_def calcRate_def
      getPreviousValue_def updatePreviousValue_def getKey_def TypeNode_def time_zero_def)

lemma snapshot_records:
  "map (\<lambda>m. (Name m, Node m))
     (metrics (emit_spec two_node_scanner 700000
        (emit_capacities two_node_scanner 700000
           (emit_cluster two_node_scanner 700000
              ((collectGarbage first_unreachable NewKubelet_state)
                 \<lparr>metrics := [], rawResponses := []\<rparr>)))))
   = [(''nodes/count'', 0), (''nodes/count'', 0),
      (''cpu/node_capacity'', 1), (''cpu/node_allocatable'', 1),
      (''memory/node_capacity'', 1), (''memory/node_allocatable'', 1),
      (''cpu/node_capacity'', 2), (''cpu/node_allocatable'', 2),
      (''memory/node_capacity'', 2), (''memory/node_allocatable'', 2),
      (''cpu/request'', 0), (''cpu/limit'', 0), (''memory/request'', 0), (''memory/limit'', 0)] \<and>
   previous (emit_spec two_node_scanner 700000
        (emit_capacities two_node_scanner 700000
           (emit_cluster two_node_scanner 700000
              ((collectGarbage first_unreachable NewKubelet_state)
                 \<lparr>metrics := [], rawResponses := []\<rparr>)))) = Map.empty"
  by (simp add: two_node_scanner_def one_node_scanner_def NewKubelet_state_def collectGarbage_def
      emit_cluster_def emit_capacities_def emit_spec_def addMetricValue_def addMetricValueWithTags_def
      count_instanceGroup_def instanceGroup_of_def node_capacities_def container_spec_def node_n1_def
      node_n2_def web_container_def Let_def time_zero_def uuid_Nil_def)

text \<open>
  C3. Failing nodes do not fail the cycle. Unless the constructor of the concurrent
  processor fails (then the code panics), \<^verbatim>\<open>GetMetrics\<close> returns with a nil error,
  whatever the node tasks answer. The batch begins with the records emitted from the
  snapshot (cluster counts, node capacities, per-container spec records), and it is
  what the tasks of all the nodes leave behind, run one after the other from there: each
  task, failing or not, keeps what the batch held when it started, and what the batch
  holds when it ends is in the batch returned.
\<close>

theorem GetMetrics_returns_every_task:
  assumes "NewConcurrentProcessor_err env = None"
  shows "\<exists>batch raw st'.
           GetMetrics env kubelet scanner tickTime st0 = Return (batch, raw, None, st') \<and>
           (let st = (collectGarbage env st0)\<lparr>metrics := [], rawResponses := []\<rparr>;
                st1 = emit_cluster scanner tickTime st;
                st2 = emit_capacities scanner tickTime st1;
                st3 = emit_spec scanner tickTime st2;
                task = (\<lambda>node s. snd (node_task env kubelet scanner tickTime node s))
            in prefix (metrics st1) batch \<and> prefix (metrics st2) batch \<and>
               prefix (metrics st3) batch \<and>
               set (spec_records scanner tickTime) \<subseteq> set batch \<and>
               batch = metrics (fold task (GetNodes scanner) st3) \<and>
               (\<forall>nodes node rest. GetNodes scanner = nodes @ node # rest \<longrightarrow>
                  prefix (metrics (fold task nodes st3)) (metrics (task node (fold task nodes st3))) \<and>
                  prefix (metrics (task node (fold task nodes st3))) batch))"
proof -
  let ?T = "\<lambda>typ n a s c. True"
  let ?st = "(collectGarbage env st0)\<lparr>metrics := [], rawResponses := []\<rparr>"
  let ?st1 = "emit_cluster scanner tickTime ?st"
  let ?st2 = "emit_capacities scanner tickTime ?st1"
  let ?st3 = "emit_spec scanner tickTime ?st2"
  let ?task = "node_task env kubelet scanner tickTime"
  let ?run = "\<lambda>node s. snd (node_task env kubelet scanner tickTime node s)"
  obtain errs st4 where d: "Do ?task (GetNodes scanner) ?st3 = (errs, st4)"
    by force
  have st4: "st4 = fold ?run (GetNodes scanner) ?st3"
    using Do_state [of ?task "GetNodes scanner" ?st3] d by simp
  have ret: "GetMetrics env kubelet scanner tickTime st0 =
               Return (metrics st4, (if optInAnalysisData kubelet then Some (rawResponses st4) else None),
                       None, st4)"
    using assms d by (simp add: GetMetrics_def Let_def)
  have task: "\<And>node s. appends ?T s (?run node s)"
    by (rule node_task_appends) simp_all
  have run: "\<And>nodes s. appends ?T s (fold ?run nodes s)"
    by (rule appends_fold) (rule task)
  have p3: "prefix (metrics ?st3) (metrics st4)"
    unfolding st4 by (rule appends_prefix [OF run])
  have p2: "prefix (metrics ?st2) (metrics ?st3)"
    by (rule appends_prefix [of ?T]) (rule emit_spec_appends, simp)
  have p1: "prefix (metrics ?st1) (metrics ?st2)"
    by (rule appends_prefix [of ?T]) (rule emit_capacities_appends, simp)
  have sp: "set (spec_records scanner tickTime) \<subseteq> set (metrics st4)"
    using p3 unfolding emit_spec_records prefix_def by auto
  have nodes: "\<forall>nodes node rest. GetNodes scanner = nodes @ node # rest \<longrightarrow>
                 prefix (metrics (fold ?run nodes ?st3)) (metrics (?run node (fold ?run nodes ?st3))) \<and>
                 prefix (metrics (?run node (fold ?run nodes ?st3))) (metrics st4)"
  proof (intro allI impI)
    fix nodes node rest
    assume g: "GetNodes scanner = nodes @ node # rest"
    let ?s = "fold ?run nodes ?st3"
    have "st4 = fold ?run rest (?run node ?s)"
      unfolding st4 g by simp
    then have "prefix (metrics (?run node ?s)) (metrics st4)"
      using appends_prefix [OF run [of "?run node ?s" rest]] by simp
    then show "prefix (metrics ?s) (metrics (?run node ?s)) \<and>
               prefix (metrics (?run node ?s)) (metrics st4)"
      using appends_prefix [OF task [of ?s node]] by simp
  qed
  have p2': "prefix (metrics ?st2) (metrics st4)"
    using p2 p3 by (rule prefix_order.trans)
  have p1': "prefix (metrics ?st1) (metrics st4)"
    using p1 p2' by (rule prefix_order.trans)
  show ?thesis
    unfolding ret Let_def using p1' p2' p3 sp nodes st4 by blast
qed

theorem GetMetrics_returns_every_task_witness:
  "NewConcurrentProcessor_err first_unreachable = None \<and>
   fst (node_task first_unreachable default_kubelet two_node_scanner 700000 node_n1 NewKubelet_state)
     = Some (MaxRetriesExceeded (UnableToGetSummary (ClientError ''connection refused''))) \<and>
   (\<exists>batch raw st'.
      GetMetrics first_unreachable default_kubelet two_node_scanner 700000 NewKubelet_state
        = Return (batch, raw, None, st') \<and>
      map (\<lambda>m. (Name m, Node m)) batch =
        [(''nodes/count'', 0), (''nodes/count'', 0),
         (''cpu/node_capacity'', 1), (''cpu/node_allocatable'', 1),
         (''memory/node_capacity'', 1), (''memory/node_allocatable'', 1),
         (''cpu/node_capacity'', 2), (''cpu/node_allocatable'', 2),
         (''memory/node_capacity'', 2), (''memory/node_allocatable'', 2),
         (''cpu/request'', 0), (''cpu/limit'', 0), (''memory/request'', 0), (''memory/limit'', 0),
         (''cpu/usage'', 2), (''memory/rss'', 2), (''filesystem/usage'', 2),
         (''filesystem/node_capacity'', 2), (''filesystem/node_allocatable'', 2),
         (''network/tx'', 2), (''network/rx'', 2), (''network/tx_errors'', 2),
         (''network/rx_errors'', 2)])"
proof -
  let ?st3 = "emit_spec two_node_scanner 700000
        (emit_capacities two_node_scanner 700000
           (emit_cluster two_node_scanner 700000
              ((collectGarbage first_unreachable NewKubelet_state)
                 \<lparr>metrics := [], rawResponses := []\<rparr>)))"
  let ?task = "\<lambda>node s. snd (node_task first_unreachable default_kubelet two_node_scanner 700000 node s)"
  have a: "NewConcurrentProcessor_err first_unreachable = None"
    by (simp add: first_unreachable_def old_kubelet_def)
  have b: "fst (node_task first_unreachable default_kubelet two_node_scanner 700000 node_n1
                  NewKubelet_state)
             = Some (MaxRetriesExceeded (UnableToGetSummary (ClientError ''connection refused'')))"
    by (simp add: first_node_fails)
  obtain batch raw st' where r:
      "GetMetrics first_unreachable default_kubelet two_node_scanner 700000 NewKubelet_state
         = Return (batch, raw, None, st')"
      "batch = metrics (fold ?task (GetNodes two_node_scanner) ?st3)"
    using GetMetrics_returns_every_task [OF a, of default_kubelet two_node_scanner 700000
        NewKubelet_state]
    unfolding Let_def by blast
  have nodes: "GetNodes two_node_scanner = [node_n1, node_n2]"
    by (simp add: two_node_scanner_def)
  have p: "previous (?task node_n1 ?st3) = Map.empty"
    using snapshot_records by (simp add: first_node_fails)
  have m: "metrics (?task node_n1 ?st3) = metrics ?st3"
    by (simp add: first_node_fails)
  have "batch = metrics (?task node_n2 (?task node_n1 ?st3))"
    using r(2) nodes by simp
  then have "map (\<lambda>m. (Name m, Node m)) batch =
               map (\<lambda>m. (Name m, Node m)) (metrics ?st3) @
               [(''cpu/usage'', 2), (''memory/rss'', 2), (''filesystem/usage'', 2),
                (''filesystem/node_capacity'', 2), (''filesystem/node_allocatable'', 2),
                (''network/tx'', 2), (''network/rx'', 2), (''network/tx_errors'', 2),
                (''network/rx_errors'', 2)]"
    using second_node_records [OF p] m by simp
  then show ?thesis
    using a b r(1) snapshot_records by simp
qed

section \<open>Properties of the emission loop of a pod\<close>












end
